(* ===== verification/Prelude.thy ===== *)
theory Prelude
  imports Main "HOL-Library.AList" "HOL-Library.Sublist" "HOL-Library.Word"
begin

text \<open>
  Shared vocabulary of the development.  Python strings are sequences of Unicode code
  points, so a Python \<open>str\<close> is modelled as a list of naturals (\<open>ustr\<close>); a
  \<open>bytes\<close> object is a list of 8-bit words.  ASCII literals of the source are written
  with \<open>asc\<close>, other literals as their code points.  The theory also holds the
  Python built-ins on strings that the source uses (\<open>str.strip\<close>, \<open>in\<close> on
  strings, \<open>str(int)\<close>) and generic lemmas on lists, options and association lists
  that the component theories share.
\<close>

named_theorems literal_defs "definitions of the string literals of the source"

type_synonym ustr = "nat list"
type_synonym bytes = "8 word list"
type_synonym path = ustr

section \<open>String literals and Python string built-ins\<close>

definition asc :: "string \<Rightarrow> ustr" where
  "asc s = map of_char s"

text \<open>Python's \<open>str.isspace\<close> on one code point (the Unicode whitespace set of CPython).\<close>

definition py_isspace :: "nat \<Rightarrow> bool" where
  "py_isspace c \<longleftrightarrow>
     (9 \<le> c \<and> c \<le> 13) \<or> (28 \<le> c \<and> c \<le> 32) \<or> c = 133 \<or> c = 160 \<or> c = 5760 \<or>
     (8192 \<le> c \<and> c \<le> 8202) \<or> c = 8232 \<or> c = 8233 \<or> c = 8239 \<or> c = 8287 \<or> c = 12288"

text \<open>\<open>s.strip()\<close>: drop whitespace at both ends.\<close>

definition py_strip :: "ustr \<Rightarrow> ustr" where
  "py_strip s = rev (dropWhile py_isspace (rev (dropWhile py_isspace s)))"

text \<open>\<open>str(n)\<close> for a Python integer: decimal digits, a minus sign when negative.\<close>

fun digits10 :: "nat \<Rightarrow> ustr" where
  "digits10 n = (if n < 10 then [48 + n] else digits10 (n div 10) @ [48 + n mod 10])"

declare digits10.simps [simp del]

definition show_int :: "int \<Rightarrow> ustr" where
  "show_int i = (if i < 0 then 45 # digits10 (nat (- i)) else digits10 (nat i))"

text \<open>Reading a digit string back (\<open>int(s)\<close> on a string of ASCII digits).\<close>

definition read_digits :: "ustr \<Rightarrow> nat" where
  "read_digits ds = foldl (\<lambda>acc d. 10 * acc + (d - 48)) 0 ds"

text \<open>\<open>d.get(key, default)\<close> for a key that is present (\<open>Some v\<close>) or absent.\<close>

definition py_get :: "'a option \<Rightarrow> 'a \<Rightarrow> 'a" where
  "py_get v d = (case v of None \<Rightarrow> d | Some x \<Rightarrow> x)"

section \<open>Lemmas on the string built-ins\<close>

lemma digits10_nonempty [simp]: "digits10 n \<noteq> []"
  by (subst digits10.simps) simp

lemma digits10_digits: "d \<in> set (digits10 n) \<Longrightarrow> 48 \<le> d \<and> d < 58"
proof (induction n rule: digits10.induct)
  case (1 n)
  show ?case
  proof (cases "n < 10")
    case True
    with "1.prems" show ?thesis by (simp add: digits10.simps [of n])
  next
    case False
    with "1.prems" have "d \<in> set (digits10 (n div 10)) \<or> d = 48 + n mod 10"
      by (auto simp: digits10.simps [of n])
    with False "1.IH" show ?thesis by auto
  qed
qed

lemma read_digits_snoc: "read_digits (ds @ [d]) = 10 * read_digits ds + (d - 48)"
  by (simp add: read_digits_def)

text \<open>\<open>str\<close> and \<open>int\<close> are inverse on natural numbers.\<close>

lemma read_digits10: "read_digits (digits10 n) = n"
proof (induction n rule: digits10.induct)
  case (1 n)
  show ?case
  proof (cases "n < 10")
    case True
    then show ?thesis by (simp add: digits10.simps [of n] read_digits_def)
  next
    case False
    then have "read_digits (digits10 n) = 10 * read_digits (digits10 (n div 10)) + n mod 10"
      by (simp add: digits10.simps [of n] read_digits_snoc)
    with False "1.IH" show ?thesis by simp
  qed
qed

lemma digits10_inj: "digits10 m = digits10 n \<Longrightarrow> m = n"
  by (metis read_digits10)

lemma digits10_no_space: "c \<in> set (digits10 n) \<Longrightarrow> \<not> py_isspace c"
  using digits10_digits [of c n] by (auto simp: py_isspace_def)

lemma py_strip_split:
  "py_strip s @ rev (takeWhile py_isspace (rev (dropWhile py_isspace s))) = dropWhile py_isspace s"
  unfolding py_strip_def rev_append [symmetric] by simp

lemma py_strip_no_space_ends:
  assumes "py_strip s \<noteq> []"
  shows "\<not> py_isspace (hd (py_strip s)) \<and> \<not> py_isspace (last (py_strip s))"
proof -
  let ?a = "dropWhile py_isspace s"
  have ne: "dropWhile py_isspace (rev ?a) \<noteq> []"
    using assms by (simp add: py_strip_def)
  then have last: "\<not> py_isspace (last (py_strip s))"
    by (simp add: py_strip_def last_rev hd_dropWhile)
  have "?a \<noteq> []"
  proof
    assume "?a = []"
    with ne show False by simp
  qed
  then have h: "\<not> py_isspace (hd ?a)" by (rule hd_dropWhile)
  have "hd (py_strip s) = hd ?a"
    using py_strip_split [of s] assms by (metis hd_append2)
  with h last show ?thesis by simp
qed

lemma py_strip_idem_of_ends:
  "s = [] \<or> (\<not> py_isspace (hd s) \<and> \<not> py_isspace (last s)) \<Longrightarrow> py_strip s = s"
proof (cases s rule: rev_cases)
  case Nil
  then show ?thesis by (simp add: py_strip_def)
next
  case (snoc ys y)
  assume "s = [] \<or> (\<not> py_isspace (hd s) \<and> \<not> py_isspace (last s))"
  with snoc have "\<not> py_isspace (hd s)" "\<not> py_isspace y" by auto
  then have "dropWhile py_isspace s = s"
    by (cases s) auto
  with snoc \<open>\<not> py_isspace y\<close> show ?thesis by (simp add: py_strip_def)
qed

lemma py_strip_idem: "py_strip (py_strip s) = py_strip s"
  using py_strip_no_space_ends [of s] by (intro py_strip_idem_of_ends) auto

section \<open>Generic lemmas on lists, options and association lists\<close>

lemma sublist_append_middle [simp, intro]: "sublist xs (ps @ xs @ ss)"
  by (auto simp: sublist_def)

lemma find_SomeD: "find P xs = Some x \<Longrightarrow> P x \<and> x \<in> set xs"
  by (auto simp: find_Some_iff)

lemma find_append_none: "\<forall>x\<in>set xs. \<not> P x \<Longrightarrow> find P (xs @ ys) = find P ys"
  by (induction xs) auto

lemma find_filter_conj: "find (\<lambda>x. P x \<and> Q x) xs = find P (filter Q xs)"
  by (induction xs) auto

lemma map_of_merge_update:
  "map_of (AList.update k v xs) = (map_of xs)(k \<mapsto> v)"
  by (simp add: update_conv')

lemma fold_max_ge_init: "(a::nat) \<le> fold max xs a"
proof (induction xs arbitrary: a)
  case Nil
  then show ?case by simp
next
  case (Cons y ys)
  have "max y a \<le> fold max ys (max y a)" by (rule Cons.IH)
  then show ?case by simp
qed

lemma fold_max_ge: "(x::nat) \<in> set xs \<Longrightarrow> x \<le> fold max xs a"
proof (induction xs arbitrary: a)
  case Nil
  then show ?case by simp
next
  case (Cons y ys)
  show ?case
  proof (cases "x = y")
    case True
    then show ?thesis using fold_max_ge_init [of "max y a" ys] by simp
  next
    case False
    with Cons show ?thesis by simp
  qed
qed

end
