(* ===== verification/Gbk.thy ===== *)
theory Gbk
  imports Prelude
begin

text \<open>
  The byte length of a string in the GBK encoding, \<open>len(text.encode('gbk'))\<close>,
  which both the client (\<open>BaiduTTS.text_to_speech\<close>, src/TTS/AI_Text_to_Audio.py
  line 47) and the web handler (\<open>generate_audio\<close>, app.py line 250) use for the
  provider's 1024-byte limit.  The codec is Python's standard \<open>gbk\<close> codec, not code
  of the repository: ASCII code points take one byte, the code points of the GBK
  double-byte table take two, and any other code point makes \<open>encode\<close> raise
  \<open>UnicodeEncodeError\<close>, modelled as \<open>None\<close>.  The table below lists the
  double-byte code points of CPython's codec as closed intervals.
\<close>

definition gbk_double_ranges :: "(nat \<times> nat) list" where
  "gbk_double_ranges =
    [(164, 164), (167, 168), (176, 177), (183, 183), (215, 215), (224, 225), (232, 234),
     (236, 237), (242, 243), (247, 247), (249, 250), (252, 252), (257, 257), (275, 275),
     (283, 283), (299, 299), (324, 324), (328, 328), (333, 333), (363, 363), (462, 462),
     (464, 464), (466, 466), (468, 468), (470, 470), (472, 472), (474, 474), (476, 476),
     (593, 593), (609, 609), (711, 711), (713, 715), (729, 729), (913, 929), (931, 937),
     (945, 961), (963, 969), (1025, 1025), (1040, 1103), (1105, 1105), (8208, 8208), (8211,
     8214), (8216, 8217), (8220, 8221), (8229, 8230), (8240, 8240), (8242, 8243), (8245,
     8245), (8251, 8251), (8451, 8451), (8453, 8453), (8457, 8457), (8470, 8470), (8481,
     8481), (8544, 8555), (8560, 8569), (8592, 8595), (8598, 8601), (8712, 8712), (8719,
     8719), (8721, 8721), (8725, 8725), (8730, 8730), (8733, 8736), (8739, 8739), (8741,
     8741), (8743, 8747), (8750, 8750), (8756, 8759), (8765, 8765), (8776, 8776), (8780,
     8780), (8786, 8786), (8800, 8801), (8804, 8807), (8814, 8815), (8853, 8853), (8857,
     8857), (8869, 8869), (8895, 8895), (8978, 8978), (9312, 9321), (9332, 9371), (9472,
     9547), (9552, 9587), (9601, 9615), (9619, 9621), (9632, 9633), (9650, 9651), (9660,
     9661), (9670, 9671), (9675, 9675), (9678, 9679), (9698, 9701), (9733, 9734), (9737,
     9737), (9792, 9792), (9794, 9794), (12288, 12291), (12293, 12311), (12317, 12318),
     (12321, 12329), (12353, 12435), (12443, 12446), (12449, 12534), (12540, 12542),
     (12549, 12585), (12832, 12841), (12849, 12849), (12963, 12963), (13198, 13199),
     (13212, 13214), (13217, 13217), (13252, 13252), (13262, 13262), (13265, 13266),
     (13269, 13269), (19968, 40869), (63788, 63788), (63865, 63865), (63893, 63893),
     (63975, 63975), (63985, 63985), (64012, 64015), (64017, 64017), (64019, 64020),
     (64024, 64024), (64031, 64033), (64035, 64036), (64039, 64041), (65072, 65073),
     (65075, 65092), (65097, 65106), (65108, 65111), (65113, 65126), (65128, 65131),
     (65281, 65374), (65504, 65509)]"

definition gbk_char_len :: "nat \<Rightarrow> nat option" where
  "gbk_char_len c =
     (if c < 128 then Some 1
      else if list_ex (\<lambda>(lo, hi). lo \<le> c \<and> c \<le> hi) gbk_double_ranges then Some 2
      else None)"

fun gbk_len :: "ustr \<Rightarrow> nat option" where
  "gbk_len [] = Some 0"
| "gbk_len (c # cs) =
     (case gbk_char_len c of
        None \<Rightarrow> None
      | Some k \<Rightarrow> map_option (\<lambda>n. k + n) (gbk_len cs))"

section \<open>Lemmas on the encoded length\<close>

lemma gbk_char_len_cases:
  "gbk_char_len c = None \<or> gbk_char_len c = Some 1 \<or> gbk_char_len c = Some 2"
  by (simp add: gbk_char_len_def)

lemma gbk_char_len_ascii [simp]: "c < 128 \<Longrightarrow> gbk_char_len c = Some 1"
  by (simp add: gbk_char_len_def)

lemma gbk_char_len_cjk:
  assumes "19968 \<le> c" and "c \<le> 40869"
  shows "gbk_char_len c = Some 2"
proof -
  have "(19968, 40869) \<in> set gbk_double_ranges"
    by (simp add: gbk_double_ranges_def)
  with assms have "list_ex (\<lambda>(lo, hi). lo \<le> c \<and> c \<le> hi) gbk_double_ranges"
    by (auto simp: list_ex_iff)
  with assms show ?thesis by (simp add: gbk_char_len_def)
qed

lemma gbk_len_append:
  "gbk_len (xs @ ys) =
     (case gbk_len xs of None \<Rightarrow> None | Some m \<Rightarrow> map_option (\<lambda>n. m + n) (gbk_len ys))"
  by (cases "gbk_len ys"; induction xs) (auto split: option.splits)

lemma gbk_len_None_iff: "gbk_len s = None \<longleftrightarrow> (\<exists>c\<in>set s. gbk_char_len c = None)"
  by (induction s) (auto split: option.splits)

text \<open>Each code point takes one or two bytes.\<close>

lemma gbk_len_bounds: "gbk_len s = Some n \<Longrightarrow> length s \<le> n \<and> n \<le> 2 * length s"
proof (induction s arbitrary: n)
  case Nil
  then show ?case by simp
next
  case (Cons c cs)
  from Cons.prems obtain k m where k: "gbk_char_len c = Some k" and m: "gbk_len cs = Some m"
    and n: "n = k + m"
    by (auto split: option.splits)
  from k gbk_char_len_cases [of c] have "k = 1 \<or> k = 2" by auto
  with Cons.IH [OF m] n show ?case by auto
qed

lemma gbk_len_ascii: "\<forall>c\<in>set s. c < 128 \<Longrightarrow> gbk_len s = Some (length s)"
  by (induction s) auto

lemma gbk_len_cjk:
  "\<forall>c\<in>set s. 19968 \<le> c \<and> c \<le> 40869 \<Longrightarrow> gbk_len s = Some (2 * length s)"
  by (induction s) (auto simp: gbk_char_len_cjk)

end
