(* ===== verification/World.thy ===== *)
theory World
  imports Prelude
begin

text \<open>
  The part of the outside world that the code touches, shared by the TTS client
  (src/TTS/AI_Text_to_Audio.py) and the web handlers (app.py): the files on disk, the
  requests issued to the Baidu speech provider, the calls of \<open>time.sleep\<close> and the
  lines written by \<open>print\<close>.
  What the world answers (the provider's reply, whether a disk write or a remove
  succeeds) is not determined by the program; each request is run against an
  environment of such answers (\<open>env\<close>), so that every theorem holds for every answer.
  Python dictionaries are association lists in insertion order, with \<open>dict[k] = v\<close>
  as \<open>AList.update\<close> and \<open>d.update(o)\<close> as a fold of it (\<open>py_dict_update\<close>).
\<close>

section \<open>Python values\<close>

datatype optval = OInt int | OStr ustr

type_synonym pydict = "(string \<times> optval) list"

definition py_dict_update :: "pydict \<Rightarrow> pydict \<Rightarrow> pydict" where
  "py_dict_update d other = fold (\<lambda>(k, v). AList.update k v) other d"

text \<open>Exceptions that escape the functions they arise in.\<close>

datatype py_exc = UnicodeEncodeError | UnboundLocalError | AttributeError

section \<open>The provider interface\<close>

text \<open>
  \<open>AipSpeech.synthesis(text, lang, ctp, options)\<close>: the request, and the three kinds
  of reply the client distinguishes: raw audio bytes, an error dictionary (its
  \<open>err_msg\<close> and \<open>err_no\<close> entries, when present, rendered by \<open>str\<close>), or an
  exception with its message.
\<close>

record synth_req =
  rq_text :: ustr
  rq_lang :: string
  rq_ctp :: nat
  rq_options :: pydict

datatype synth_reply = Audio bytes | ErrorDict "ustr option" "ustr option" | Raises ustr

text \<open>
  \<open>open(path, 'wb')\<close> followed by \<open>f.write(data)\<close>: it succeeds, or \<open>open\<close>
  fails and no file is created, or the write fails after \<open>k\<close> bytes and a truncated
  file stays behind.
\<close>

datatype write_outcome = WriteOk | OpenFails ustr | WriteFails nat ustr

record world =
  files :: "path \<rightharpoonup> bytes"
  sent :: "synth_req list"
  slept :: "nat list"
  printed :: "ustr list"

record env =
  synth :: "nat \<Rightarrow> synth_req \<Rightarrow> synth_reply"
  disk :: "path \<Rightarrow> bytes \<Rightarrow> write_outcome"

section \<open>File operations\<close>

text \<open>The \<open>with open(path, 'wb') as f: f.write(data)\<close> block; \<open>Some msg\<close> is the exception.\<close>

definition write_file ::
  "write_outcome \<Rightarrow> path \<Rightarrow> bytes \<Rightarrow> 'w world_scheme \<Rightarrow> ustr option \<times> 'w world_scheme" where
  "write_file out p b w =
     (case out of
        WriteOk \<Rightarrow> (None, w\<lparr>files := (files w)(p \<mapsto> b)\<rparr>)
      | OpenFails msg \<Rightarrow> (Some msg, w)
      | WriteFails k msg \<Rightarrow> (Some msg, w\<lparr>files := (files w)(p \<mapsto> take k b)\<rparr>))"

text \<open>\<open>os.path.exists(path)\<close>.\<close>

definition path_exists :: "path \<Rightarrow> 'w world_scheme \<Rightarrow> bool" where
  "path_exists p w \<longleftrightarrow> files w p \<noteq> None"

text \<open>\<open>os.remove(path)\<close>, whose failure (permissions, a busy file) is \<open>Some msg\<close>.\<close>

definition remove_file :: "ustr option \<Rightarrow> path \<Rightarrow> 'w world_scheme \<Rightarrow> ustr option \<times> 'w world_scheme" where
  "remove_file err p w =
     (case err of
        None \<Rightarrow> (None, w\<lparr>files := (files w)(p := None)\<rparr>)
      | Some msg \<Rightarrow> (Some msg, w))"

text \<open>\<open>os.path.join(d, name)\<close> for a directory \<open>d\<close> without a trailing slash.\<close>

definition path_join :: "path \<Rightarrow> ustr \<Rightarrow> path" where
  "path_join d name = (if take 1 name = [47] then name else d @ [47] @ name)"

section \<open>Lemmas on the world\<close>

lemma py_dict_update_Nil [simp]: "py_dict_update d [] = d"
  by (simp add: py_dict_update_def)

lemma map_of_py_dict_update:
  "distinct (map fst other) \<Longrightarrow> map_of (py_dict_update d other) = map_of d ++ map_of other"
proof (induction other arbitrary: d)
  case Nil
  then show ?case by simp
next
  case (Cons p other)
  obtain k v where p: "p = (k, v)" by fastforce
  with Cons.prems have k: "k \<notin> fst ` set other" and dist: "distinct (map fst other)"
    by auto
  have "map_of (py_dict_update d (p # other)) = map_of (AList.update k v d) ++ map_of other"
    using Cons.IH [OF dist] by (simp add: py_dict_update_def p)
  moreover have "map_of other k = None"
    using k by (simp add: map_of_eq_None_iff)
  ultimately show ?case
    by (auto simp: p map_of_merge_update map_add_def fun_eq_iff split: option.splits)
qed

lemma write_file_sent [simp]: "sent (snd (write_file out p b w)) = sent w"
  by (simp add: write_file_def split: write_outcome.splits)

lemma write_file_slept [simp]: "slept (snd (write_file out p b w)) = slept w"
  by (simp add: write_file_def split: write_outcome.splits)

lemma write_file_printed [simp]: "printed (snd (write_file out p b w)) = printed w"
  by (simp add: write_file_def split: write_outcome.splits)

lemma write_file_more [simp]: "world.more (snd (write_file out p b w)) = world.more w"
  by (simp add: write_file_def split: write_outcome.splits)

lemma write_file_other [simp]: "q \<noteq> p \<Longrightarrow> files (snd (write_file out p b w)) q = files w q"
  by (simp add: write_file_def split: write_outcome.splits)

lemma write_file_ok_iff:
  "fst (write_file out p b w) = None \<longleftrightarrow> out = WriteOk"
  by (simp add: write_file_def split: write_outcome.splits)

lemma write_file_ok:
  "write_file WriteOk p b w = (None, w\<lparr>files := (files w)(p \<mapsto> b)\<rparr>)"
  by (simp add: write_file_def)

lemma write_file_exists: "files (snd (write_file out p b w)) p \<noteq> None \<or> out \<noteq> WriteOk \<and> files (snd (write_file out p b w)) p = files w p"
  by (simp add: write_file_def split: write_outcome.splits)

end
