(* ===== verification/Tts.thy ===== *)
theory Tts
  imports Gbk World
begin

text \<open>
  The Baidu text-to-speech client, class \<open>BaiduTTS\<close> of src/TTS/AI_Text_to_Audio.py
  (the web application imports the same module).  Its state is the record
  \<open>baidu_tts\<close>: the credentials and the default voice parameters.  The provider
  (\<open>AipSpeech\<close>) and the disk are the environment of World.thy.  Operations, in the
  order of the class: \<open>baidu_tts_init\<close> (\<open>__init__\<close>), \<open>text_to_speech\<close> with
  its helpers \<open>merge_options\<close> and \<open>synth_fail_msg\<close>, \<open>set_default_option\<close>,
  \<open>get_supported_voices\<close>, and \<open>text_to_speech_with_retry\<close>, whose \<open>for\<close>
  loop is \<open>retry_loop\<close>.  A \<open>print\<close> appends its line to \<open>printed\<close>.
\<close>

section \<open>String literals of the client\<close>

text \<open>The oversize message (line 48).\<close>

definition msg_too_long :: ustr where
  [literal_defs]: "msg_too_long = [0x6587, 0x672C, 0x957F, 0x5EA6, 0x8D85, 0x8FC7] @ asc ''1024'' @ [0x5B57, 0x8282, 0x9650, 0x5236, 0xFF0C, 0x8BF7, 0x7F29, 0x77ED, 0x6587, 0x672C, 0x6216, 0x5206, 0x6BB5, 0x5904, 0x7406] @ asc ''[citation:5]''"

text \<open>Prefix of the provider-error message (line 73).\<close>

definition lit_synth_failed :: ustr where
  [literal_defs]: "lit_synth_failed = [0x8BED, 0x97F3, 0x5408, 0x6210, 0x5931, 0x8D25] @ asc '': ''"

text \<open>Default of \<open>err_msg\<close> (line 71).\<close>

definition lit_unknown_error :: ustr where
  [literal_defs]: "lit_unknown_error = [0x672A, 0x77E5, 0x9519, 0x8BEF]"

text \<open>Default of \<open>err_no\<close> (line 72).\<close>

definition lit_unknown_errno :: ustr where
  [literal_defs]: "lit_unknown_errno = [0x672A, 0x77E5, 0x9519, 0x8BEF, 0x7801]"

text \<open>The error-code part of the message (line 73).\<close>

definition lit_errno :: ustr where
  [literal_defs]: "lit_errno = asc '' ('' @ [0x9519, 0x8BEF, 0x7801] @ asc '': ''"

text \<open>Prefix of the exception message (line 81).\<close>

definition lit_exception :: ustr where
  [literal_defs]: "lit_exception = [0x8BED, 0x97F3, 0x5408, 0x6210, 0x8FC7, 0x7A0B, 0x4E2D, 0x53D1, 0x751F, 0x5F02, 0x5E38] @ asc '': ''"

text \<open>Transient marker "server busy" (line 139).\<close>

definition lit_server_busy :: ustr where
  [literal_defs]: "lit_server_busy = [0x670D, 0x52A1, 0x5668, 0x5FD9]"

text \<open>Transient marker "rate limited" (line 139).\<close>

definition lit_rate_limited :: ustr where
  [literal_defs]: "lit_rate_limited = [0x8BBF, 0x95EE, 0x9891, 0x7387, 0x53D7, 0x9650]"

text \<open>Final retry message, first part (line 148).\<close>

definition lit_after :: ustr where
  [literal_defs]: "lit_after = [0x7ECF, 0x8FC7]"

text \<open>Final retry message, second part (line 148).\<close>

definition lit_attempts_failed :: ustr where
  [literal_defs]: "lit_attempts_failed = [0x6B21, 0x5C1D, 0x8BD5, 0x540E, 0x4ECD, 0x7136, 0x5931, 0x8D25] @ asc '': ''"

text \<open>Parts of the retry notice (line 141).\<close>

definition lit_attempt_no :: ustr where
  [literal_defs]: "lit_attempt_no = [0x7B2C]"

definition lit_attempt_failed :: ustr where
  [literal_defs]: "lit_attempt_failed = [0x6B21, 0x5C1D, 0x8BD5, 0x5931, 0x8D25] @ asc '': ''"

definition lit_retry_in :: ustr where
  [literal_defs]: "lit_retry_in = [0xFF0C]"

definition lit_seconds_retry :: ustr where
  [literal_defs]: "lit_seconds_retry = [0x79D2, 0x540E, 0x91CD, 0x8BD5] @ asc ''...''"

section \<open>The client state\<close>

record baidu_tts =
  app_id :: ustr
  api_key :: ustr
  secret_key :: ustr
  default_options :: pydict

definition initial_default_options :: pydict where
  "initial_default_options =
     [(''vol'', OInt 5), (''spd'', OInt 5), (''pit'', OInt 5), (''per'', OInt 0)]"

definition baidu_tts_init :: "ustr \<Rightarrow> ustr \<Rightarrow> ustr \<Rightarrow> baidu_tts" where
  "baidu_tts_init aid key secret =
     \<lparr>app_id = aid, api_key = key, secret_key = secret,
      default_options = initial_default_options\<rparr>"

section \<open>text_to_speech\<close>

text \<open>Lines 50--56: defaults, overridden by a non-empty \<open>options\<close>, then \<open>cuid\<close>.\<close>

definition merge_options :: "pydict \<Rightarrow> pydict option \<Rightarrow> ustr \<Rightarrow> pydict" where
  "merge_options defaults options cuid =
     AList.update ''cuid'' (OStr cuid)
       (case options of
          None \<Rightarrow> defaults
        | Some opts \<Rightarrow> if opts \<noteq> [] then py_dict_update defaults opts else defaults)"

text \<open>Lines 71--73: the message built from an error dictionary.\<close>

definition synth_fail_msg :: "ustr option \<Rightarrow> ustr option \<Rightarrow> ustr" where
  "synth_fail_msg err_msg err_no =
     lit_synth_failed @ (case err_msg of None \<Rightarrow> lit_unknown_error | Some m \<Rightarrow> m) @
     lit_errno @ (case err_no of None \<Rightarrow> lit_unknown_errno | Some n \<Rightarrow> n) @ asc '')''"

text \<open>Lines 61--66: the arguments of \<open>self.client.synthesis\<close>.\<close>

definition tts_req :: "baidu_tts \<Rightarrow> ustr \<Rightarrow> string \<Rightarrow> pydict option \<Rightarrow> ustr \<Rightarrow> synth_req" where
  "tts_req self text lang options cuid =
     \<lparr>rq_text = text, rq_lang = lang, rq_ctp = 1,
      rq_options = merge_options (default_options self) options cuid\<rparr>"

text \<open>
  Lines 32--81.  The length check (line 47) is outside the \<open>try\<close>, so an
  unencodable text raises; everything from the provider call on is inside it, so a
  raising provider or a failing write is reported as \<open>(False, message)\<close>.  The
  provider is called once, as the \<open>n\<close>-th call of the run, where \<open>n\<close> is the number
  of calls before it.
\<close>

definition text_to_speech ::
  "'e env_scheme \<Rightarrow> baidu_tts \<Rightarrow> ustr \<Rightarrow> path \<Rightarrow> string \<Rightarrow> pydict option \<Rightarrow> ustr \<Rightarrow>
   'w world_scheme \<Rightarrow> (py_exc + bool \<times> ustr) \<times> 'w world_scheme" where
  "text_to_speech e self text output_file lang options cuid w =
     (case gbk_len text of
        None \<Rightarrow> (Inl UnicodeEncodeError, w)
      | Some n \<Rightarrow>
          if 1024 < n then (Inr (False, msg_too_long), w)
          else
            let req = tts_req self text lang options cuid;
                reply = synth e (length (sent w)) req;
                w1 = w\<lparr>sent := sent w @ [req]\<rparr>
            in case reply of
                 ErrorDict err_msg err_no \<Rightarrow> (Inr (False, synth_fail_msg err_msg err_no), w1)
               | Raises x \<Rightarrow> (Inr (False, lit_exception @ x), w1)
               | Audio b \<Rightarrow>
                   (case write_file (disk e output_file b) output_file b w1 of
                      (None, w2) \<Rightarrow> (Inr (True, output_file), w2)
                    | (Some x, w2) \<Rightarrow> (Inr (False, lit_exception @ x), w2)))"

section \<open>set_default_option and get_supported_voices\<close>

text \<open>Lines 83--93: both branches store the value.\<close>

definition set_default_option :: "baidu_tts \<Rightarrow> string \<Rightarrow> optval \<Rightarrow> baidu_tts" where
  "set_default_option self key value =
     (if key \<in> fst ` set (default_options self)
      then self\<lparr>default_options := AList.update key value (default_options self)\<rparr>
      else self\<lparr>default_options := AList.update key value (default_options self)\<rparr>)"

text \<open>Lines 95--117: the voice table, in the order of the dictionary literal.\<close>

definition get_supported_voices :: "(int \<times> ustr) list" where
  "get_supported_voices =
    [(0, [0x5EA6, 0x5C0F, 0x7F8E] @ asc '' - '' @ [0x9ED8, 0x8BA4, 0x5973, 0x58F0]),
     (1, [0x5EA6, 0x5C0F, 0x5B87] @ asc '' - '' @ [0x7537, 0x58F0]),
     (3, [0x5EA6, 0x900D, 0x9065] @ asc ''('' @ [0x57FA, 0x7840] @ asc '') - '' @ [0x60C5, 0x611F, 0x5408, 0x6210]),
     (4, [0x5EA6, 0x4E2B, 0x4E2B] @ asc '' - '' @ [0x60C5, 0x611F, 0x5408, 0x6210] @ asc ''-'' @ [0x7AE5, 0x58F0]),
     (5003, [0x5EA6, 0x900D, 0x9065] @ asc ''('' @ [0x7CBE, 0x54C1] @ asc '')''),
     (5118, [0x5EA6, 0x5C0F, 0x9E7F]),
     (106, [0x5EA6, 0x535A, 0x6587]),
     (110, [0x5EA6, 0x5C0F, 0x7AE5]),
     (111, [0x5EA6, 0x5C0F, 0x840C]),
     (103, [0x5EA6, 0x7C73, 0x6735]),
     (5, [0x5EA6, 0x5C0F, 0x5A07])]"

section \<open>text_to_speech_with_retry\<close>

text \<open>Line 139: the failure messages that are retried.\<close>

definition is_retryable :: "ustr \<Rightarrow> bool" where
  "is_retryable r \<longleftrightarrow> sublist lit_server_busy r \<or> sublist lit_rate_limited r"

datatype loop_exit = LoopReturned ustr | LoopDone "ustr option"

text \<open>
  Lines 132--146: the \<open>for attempt in range(max_retries)\<close> loop, with \<open>attempt\<close> the
  index of this iteration, \<open>k\<close> the iterations left and \<open>prev\<close> the variable
  \<open>result\<close> (unbound before the first iteration).  A retryable failure sleeps
  \<open>2 ** attempt\<close> seconds and goes on; any other failure leaves the loop.
  \<open>retry_notice\<close> is the line printed before the sleep.
\<close>

definition retry_notice :: "nat \<Rightarrow> ustr \<Rightarrow> ustr" where
  "retry_notice attempt r =
     lit_attempt_no @ show_int (int attempt + 1) @ lit_attempt_failed @ r @ lit_retry_in @
     show_int (2 ^ attempt) @ lit_seconds_retry"


fun retry_loop ::
  "'e env_scheme \<Rightarrow> baidu_tts \<Rightarrow> ustr \<Rightarrow> path \<Rightarrow> string \<Rightarrow> pydict option \<Rightarrow> ustr \<Rightarrow>
   nat \<Rightarrow> nat \<Rightarrow> ustr option \<Rightarrow> 'w world_scheme \<Rightarrow> (py_exc + loop_exit) \<times> 'w world_scheme" where
  "retry_loop e self text out lang options cuid attempt 0 prev w = (Inr (LoopDone prev), w)"
| "retry_loop e self text out lang options cuid attempt (Suc k) prev w =
     (case text_to_speech e self text out lang options cuid w of
        (Inl x, w') \<Rightarrow> (Inl x, w')
      | (Inr (True, r), w') \<Rightarrow> (Inr (LoopReturned r), w')
      | (Inr (False, r), w') \<Rightarrow>
          if is_retryable r
          then retry_loop e self text out lang options cuid (Suc attempt) k (Some r)
                 (w'\<lparr>printed := printed w' @ [retry_notice attempt r],
                     slept := slept w' @ [2 ^ attempt]\<rparr>)
          else (Inr (LoopDone (Some r)), w'))"

definition retry_fail_msg :: "int \<Rightarrow> ustr \<Rightarrow> ustr" where
  "retry_fail_msg max_retries r = lit_after @ show_int max_retries @ lit_attempts_failed @ r"

text \<open>
  Lines 119--148.  \<open>range\<close> of a negative bound is empty, hence \<open>nat\<close>.  When the loop
  never ran, line 148 reads the unbound \<open>result\<close> and raises.
\<close>

definition text_to_speech_with_retry ::
  "'e env_scheme \<Rightarrow> baidu_tts \<Rightarrow> ustr \<Rightarrow> path \<Rightarrow> int \<Rightarrow> string \<Rightarrow> pydict option \<Rightarrow> ustr \<Rightarrow>
   'w world_scheme \<Rightarrow> (py_exc + bool \<times> ustr) \<times> 'w world_scheme" where
  "text_to_speech_with_retry e self text out max_retries lang options cuid w =
     (case retry_loop e self text out lang options cuid 0 (nat max_retries) None w of
        (Inl x, w') \<Rightarrow> (Inl x, w')
      | (Inr (LoopReturned r), w') \<Rightarrow> (Inr (True, r), w')
      | (Inr (LoopDone None), w') \<Rightarrow> (Inl UnboundLocalError, w')
      | (Inr (LoopDone (Some r)), w') \<Rightarrow> (Inr (False, retry_fail_msg max_retries r), w'))"

section \<open>Sample environments\<close>

text \<open>
  Concrete environments for the theorems' instances: a provider that answers
  ``server busy'' to its first \<open>k\<close> calls and audio afterwards (\<open>busy_env k\<close>),
  a provider that answers every call with the error message \<open>m\<close> (\<open>error_env m\<close>),
  a disk on which every write succeeds, and a world with no files and no history.
\<close>

definition busy_env :: "nat \<Rightarrow> env" where
  "busy_env k =
     \<lparr>synth = (\<lambda>i req. if i < k then ErrorDict (Some lit_server_busy) None else Audio [73]),
      disk = (\<lambda>p b. WriteOk)\<rparr>"

definition error_env :: "ustr \<Rightarrow> env" where
  "error_env m = \<lparr>synth = (\<lambda>i req. ErrorDict (Some m) None), disk = (\<lambda>p b. WriteOk)\<rparr>"

definition empty_world :: world where
  "empty_world = \<lparr>files = Map.empty, sent = [], slept = [], printed = []\<rparr>"

section \<open>Lemmas on text_to_speech\<close>

lemmas tts_unfold = text_to_speech_def Let_def write_file_def

lemma merge_options_map_of:
  "distinct (map fst opts) \<Longrightarrow>
   map_of (merge_options d (Some opts) cuid) = (map_of d ++ map_of opts)(''cuid'' \<mapsto> OStr cuid)"
  by (simp add: merge_options_def map_of_merge_update map_of_py_dict_update)

lemma text_to_speech_frame:
  "slept (snd (text_to_speech e self utext out lang opts cuid w)) = slept w \<and>
   world.more (snd (text_to_speech e self utext out lang opts cuid w)) = world.more w"
  by (simp add: tts_unfold split: option.splits synth_reply.splits write_outcome.splits)

lemma text_to_speech_printed [simp]:
  "printed (snd (text_to_speech e self utext out lang opts cuid w)) = printed w"
  by (simp add: tts_unfold split: option.splits synth_reply.splits write_outcome.splits)

lemma text_to_speech_returns:
  "gbk_len utext = Some n \<Longrightarrow> \<exists>res. fst (text_to_speech e self utext out lang opts cuid w) = Inr res"
  by (auto simp: tts_unfold split: synth_reply.splits write_outcome.splits)

lemma text_to_speech_files_other:
  "q \<noteq> out \<Longrightarrow> files (snd (text_to_speech e self utext out lang opts cuid w)) q = files w q"
  by (simp add: tts_unfold split: option.splits synth_reply.splits write_outcome.splits)

lemma text_to_speech_unencodable:
  "gbk_len utext = None \<Longrightarrow>
   text_to_speech e self utext out lang opts cuid w = (Inl UnicodeEncodeError, w)"
  by (simp add: text_to_speech_def)

lemma text_to_speech_call:
  assumes "gbk_len utext = Some n" and "n \<le> 1024"
  shows "sent (snd (text_to_speech e self utext out lang opts cuid w)) =
           sent w @ [tts_req self utext lang opts cuid]"
  using assms by (simp add: tts_unfold split: synth_reply.splits write_outcome.splits)

text \<open>
  C3: a text whose GBK encoding is longer than 1024 bytes is refused with the
  oversize message before any provider call: nothing is sent, nothing is written.
\<close>

theorem text_to_speech_rejects_oversize:
  assumes "gbk_len utext = Some n" and "1024 < n"
  shows "text_to_speech e self utext out lang opts cuid w = (Inr (False, msg_too_long), w)"
  using assms by (simp add: text_to_speech_def)

theorem text_to_speech_rejects_oversize_witness:
  "text_to_speech (busy_env 0) (baidu_tts_init [] [] []) (replicate 513 0x4E00) (asc ''o.mp3'')
     ''zh'' None (asc ''c'') empty_world = (Inr (False, msg_too_long), empty_world)"
proof -
  have "gbk_len (replicate 513 0x4E00) = Some 1026"
    by (simp add: gbk_len_cjk)
  then show ?thesis by (rule text_to_speech_rejects_oversize) simp
qed

lemma text_to_speech_sent:
  "\<exists>xs. sent (snd (text_to_speech e self utext out lang opts cuid w)) = sent w @ xs \<and>
        length xs \<le> 1 \<and>
        (xs = [] \<longrightarrow> fst (text_to_speech e self utext out lang opts cuid w) \<in>
                       {Inl UnicodeEncodeError, Inr (False, msg_too_long)})"
proof (cases "gbk_len utext")
  case None
  then show ?thesis by (simp add: text_to_speech_def)
next
  case (Some n)
  show ?thesis
  proof (cases "1024 < n")
    case True
    with Some show ?thesis by (simp add: text_to_speech_def)
  next
    case False
    with Some have "sent (snd (text_to_speech e self utext out lang opts cuid w)) =
                      sent w @ [tts_req self utext lang opts cuid]"
      by (simp add: text_to_speech_call)
    then show ?thesis by (intro exI [of _ "[tts_req self utext lang opts cuid]"]) simp
  qed
qed

text \<open>
  C23: a text within the limit causes exactly one provider call, carrying the text,
  the language, \<open>ctp = 1\<close> and the default parameters overridden by the caller's
  options, with the caller tag under \<open>cuid\<close>.
\<close>

theorem text_to_speech_request:
  assumes "gbk_len utext = Some n" and "n \<le> 1024" and "distinct (map fst opts)"
  shows "\<exists>req. sent (snd (text_to_speech e self utext out lang (Some opts) cuid w)) = sent w @ [req] \<and>
           rq_text req = utext \<and> rq_lang req = lang \<and> rq_ctp req = 1 \<and>
           map_of (rq_options req) = (map_of (default_options self) ++ map_of opts)(''cuid'' \<mapsto> OStr cuid)"
proof -
  have "sent (snd (text_to_speech e self utext out lang (Some opts) cuid w)) =
          sent w @ [tts_req self utext lang (Some opts) cuid]"
    by (rule text_to_speech_call [OF assms(1,2)])
  then show ?thesis
    using assms(3)
    by (intro exI [of _ "tts_req self utext lang (Some opts) cuid"])
       (simp add: tts_req_def merge_options_map_of)
qed

theorem text_to_speech_request_witness:
  "\<exists>req. sent (snd (text_to_speech (busy_env 0) (baidu_tts_init [] [] []) (asc ''hi'') (asc ''o.mp3'')
              ''zh'' (Some [(''spd'', OInt 3)]) (asc ''c'') empty_world)) = [req] \<and>
     rq_text req = asc ''hi'' \<and> rq_lang req = ''zh'' \<and> rq_ctp req = 1 \<and>
     map_of (rq_options req) = (map_of initial_default_options ++ map_of [(''spd'', OInt 3)])(''cuid'' \<mapsto> OStr (asc ''c''))"
  using text_to_speech_request [of "asc ''hi''" 2 "[(''spd'', OInt 3)]" "busy_env 0"
      "baidu_tts_init [] [] []" "asc ''o.mp3''" "''zh''" "asc ''c''" empty_world]
  by (simp add: asc_def empty_world_def baidu_tts_init_def)

lemma text_to_speech_success_facts:
  assumes "fst (text_to_speech e self utext out lang opts cuid w) = Inr (True, r)"
  shows "r = out \<and>
         sent (snd (text_to_speech e self utext out lang opts cuid w)) =
           sent w @ [tts_req self utext lang opts cuid] \<and>
         (\<exists>b. synth e (length (sent w)) (tts_req self utext lang opts cuid) = Audio b \<and>
              disk e out b = WriteOk \<and>
              files (snd (text_to_speech e self utext out lang opts cuid w)) out = Some b)"
  using assms
  by (auto simp: tts_unfold split: option.splits if_splits synth_reply.splits write_outcome.splits)

text \<open>
  C24: \<open>text_to_speech\<close> reports success only when the provider answered its one
  call with audio and the file was written; the result is the output path, which then
  holds exactly the provider's bytes.
\<close>

theorem text_to_speech_success:
  assumes "fst (text_to_speech e self utext out lang opts cuid w) = Inr (True, r)"
  shows "r = out \<and>
         sent (snd (text_to_speech e self utext out lang opts cuid w)) =
           sent w @ [tts_req self utext lang opts cuid] \<and>
         (\<exists>b. synth e (length (sent w)) (tts_req self utext lang opts cuid) = Audio b \<and>
              disk e out b = WriteOk \<and>
              files (snd (text_to_speech e self utext out lang opts cuid w)) out = Some b)"
  using assms by (rule text_to_speech_success_facts)

theorem text_to_speech_success_witness:
  "asc ''o.mp3'' = asc ''o.mp3'' \<and>
   files (snd (text_to_speech (busy_env 0) (baidu_tts_init [] [] []) (asc ''hi'') (asc ''o.mp3'')
            ''zh'' None (asc ''c'') empty_world)) (asc ''o.mp3'') = Some [73]"
proof -
  have ok: "fst (text_to_speech (busy_env 0) (baidu_tts_init [] [] []) (asc ''hi'') (asc ''o.mp3'')
            ''zh'' None (asc ''c'') empty_world) = Inr (True, asc ''o.mp3'')"
    by (simp add: tts_unfold busy_env_def asc_def)
  show ?thesis
    using text_to_speech_success [OF ok] by (simp add: busy_env_def)
qed

section \<open>Lemmas on text_to_speech_with_retry\<close>

lemma msg_too_long_not_retryable: "\<not> is_retryable msg_too_long"
  by (simp add: is_retryable_def literal_defs asc_def sublist_code)

lemma is_retryable_sublist: "is_retryable m \<Longrightarrow> sublist m m' \<Longrightarrow> is_retryable m'"
  unfolding is_retryable_def by (meson sublist_order.order.trans)

lemma is_retryable_synth_fail:
  "is_retryable m \<Longrightarrow> is_retryable (synth_fail_msg (Some m) no)"
  unfolding synth_fail_msg_def by (erule is_retryable_sublist) simp

lemma is_retryable_server_busy [simp]: "is_retryable lit_server_busy"
  by (simp add: is_retryable_def)

lemma sum_pow2_upt: "sum_list (map (\<lambda>i. (2::nat) ^ i) [0..<s]) + 1 = 2 ^ s"
  by (induction s) auto

lemma retry_loop_bounds:
  "\<exists>calls s. sent (snd (retry_loop e self utext out lang opts cuid a k prev w)) = sent w @ calls \<and>
     length calls \<le> k \<and> s \<le> length calls \<and>
     slept (snd (retry_loop e self utext out lang opts cuid a k prev w)) =
       slept w @ map (\<lambda>i. 2 ^ i) [a..<a + s]"
proof (induction k arbitrary: a prev w)
  case 0
  show ?case by (intro exI [of _ "[]"] exI [of _ 0]) simp
next
  case (Suc k)
  obtain r1 w1 where R1: "text_to_speech e self utext out lang opts cuid w = (r1, w1)"
    by fastforce
  obtain xs where xs: "sent w1 = sent w @ xs" "length xs \<le> 1"
    and xs0: "xs = [] \<longrightarrow> r1 \<in> {Inl UnicodeEncodeError, Inr (False, msg_too_long)}"
    using text_to_speech_sent [of e self utext out lang opts cuid w] R1 by auto
  have sl: "slept w1 = slept w"
    using text_to_speech_frame [of e self utext out lang opts cuid w] R1 by simp
  show ?case
  proof (cases "\<exists>r. r1 = Inr (False, r) \<and> is_retryable r")
    case True
    then obtain r where r1: "r1 = Inr (False, r)" and rr: "is_retryable r" by blast
    with xs0 msg_too_long_not_retryable have "xs \<noteq> []" by auto
    with xs(2) have len: "length xs = 1" by (cases xs) auto
    let ?w2 = "w1\<lparr>printed := printed w1 @ [retry_notice a r], slept := slept w1 @ [2 ^ a]\<rparr>"
    obtain calls s where IH:
      "sent (snd (retry_loop e self utext out lang opts cuid (Suc a) k (Some r) ?w2)) = sent ?w2 @ calls"
      "length calls \<le> k" "s \<le> length calls"
      "slept (snd (retry_loop e self utext out lang opts cuid (Suc a) k (Some r) ?w2)) =
         slept ?w2 @ map (\<lambda>i. 2 ^ i) [Suc a..<Suc a + s]"
      using Suc.IH by blast
    have loop: "retry_loop e self utext out lang opts cuid a (Suc k) prev w =
                retry_loop e self utext out lang opts cuid (Suc a) k (Some r) ?w2"
      using R1 r1 rr by simp
    have "[a..<a + Suc s] = a # [Suc a..<Suc a + s]"
      by (simp add: upt_conv_Cons)
    with IH xs sl len show ?thesis
      unfolding loop by (intro exI [of _ "xs @ calls"] exI [of _ "Suc s"]) simp
  next
    case False
    then have "snd (retry_loop e self utext out lang opts cuid a (Suc k) prev w) = w1"
      using R1 by (auto split: sum.split prod.split bool.split)
    with xs sl show ?thesis by (intro exI [of _ xs] exI [of _ 0]) simp
  qed
qed

lemma text_to_speech_with_retry_world:
  "snd (text_to_speech_with_retry e self utext out n lang opts cuid w) =
   snd (retry_loop e self utext out lang opts cuid 0 (nat n) None w)"
  by (simp add: text_to_speech_with_retry_def split: prod.split sum.split loop_exit.split option.split)

text \<open>
  C20: the retry wrapper makes at most \<open>max_retries\<close> provider calls; its sleeps are
  \<open>1, 2, 4, \<dots>\<close> seconds, never more of them than failed calls, and in total less
  than \<open>2 ^ max_retries\<close> seconds.
\<close>

theorem text_to_speech_with_retry_backoff:
  "\<exists>calls s.
     sent (snd (text_to_speech_with_retry e self utext out n lang opts cuid w)) = sent w @ calls \<and>
     length calls \<le> nat n \<and> s \<le> length calls \<and>
     slept (snd (text_to_speech_with_retry e self utext out n lang opts cuid w)) =
       slept w @ map (\<lambda>i. 2 ^ i) [0..<s] \<and>
     sum_list (slept (snd (text_to_speech_with_retry e self utext out n lang opts cuid w))) <
       sum_list (slept w) + 2 ^ nat n"
proof -
  obtain calls s where b:
    "sent (snd (retry_loop e self utext out lang opts cuid 0 (nat n) None w)) = sent w @ calls"
    "length calls \<le> nat n" "s \<le> length calls"
    "slept (snd (retry_loop e self utext out lang opts cuid 0 (nat n) None w)) =
       slept w @ map (\<lambda>i. 2 ^ i) [0..<s]"
    using retry_loop_bounds [of e self utext out lang opts cuid 0 "nat n" None w] by auto
  have "(2::nat) ^ s \<le> 2 ^ nat n"
    using b(2,3) by simp
  moreover have "sum_list (map (\<lambda>i. (2::nat) ^ i) [0..<s]) + 1 = 2 ^ s"
    by (rule sum_pow2_upt)
  ultimately have "sum_list (map (\<lambda>i. (2::nat) ^ i) [0..<s]) < 2 ^ nat n" by linarith
  with b show ?thesis
    by (intro exI [of _ calls] exI [of _ s]) (simp add: text_to_speech_with_retry_world)
qed

text \<open>
  C18: two ``server busy'' answers followed by audio: the wrapper with the default of
  three attempts succeeds on the third call, after sleeping 1 and then 2 seconds, and
  the output file holds the audio.
\<close>

theorem retry_succeeds_on_third_attempt:
  assumes "gbk_len utext = Some m" and "m \<le> 1024"
    and "\<forall>req. synth e (length (sent w)) req = ErrorDict em0 en0"
    and "is_retryable (synth_fail_msg em0 en0)"
    and "\<forall>req. synth e (Suc (length (sent w))) req = ErrorDict em1 en1"
    and "is_retryable (synth_fail_msg em1 en1)"
    and "\<forall>req. synth e (Suc (Suc (length (sent w)))) req = Audio b"
    and "disk e out b = WriteOk"
  shows "fst (text_to_speech_with_retry e self utext out 3 lang opts cuid w) = Inr (True, out) \<and>
         length (sent (snd (text_to_speech_with_retry e self utext out 3 lang opts cuid w))) =
           length (sent w) + 3 \<and>
         slept (snd (text_to_speech_with_retry e self utext out 3 lang opts cuid w)) =
           slept w @ [1, 2] \<and>
         files (snd (text_to_speech_with_retry e self utext out 3 lang opts cuid w)) out = Some b"
  using assms by (simp add: text_to_speech_with_retry_def numeral_eq_Suc tts_unfold)

theorem retry_succeeds_on_third_attempt_witness:
  "fst (text_to_speech_with_retry (busy_env 2) (baidu_tts_init [] [] []) (asc ''hi'') (asc ''a.mp3'')
        3 ''zh'' None (asc ''c'') empty_world) = Inr (True, asc ''a.mp3'') \<and>
   slept (snd (text_to_speech_with_retry (busy_env 2) (baidu_tts_init [] [] []) (asc ''hi'')
        (asc ''a.mp3'') 3 ''zh'' None (asc ''c'') empty_world)) = [1, 2]"
  using retry_succeeds_on_third_attempt [of "asc ''hi''" 2 "busy_env 2" empty_world
      "Some lit_server_busy" None "Some lit_server_busy" None "[73]"
      "asc ''a.mp3''" "baidu_tts_init [] [] []" "''zh''" None "asc ''c''"]
  by (simp add: busy_env_def empty_world_def asc_def is_retryable_synth_fail)

text \<open>
  C19: an answer that is not a transient error ends the wrapper after one call and
  no sleep, with the failure message of the last attempt.
\<close>

theorem retry_stops_on_terminal_error:
  assumes "gbk_len utext = Some m" and "m \<le> 1024" and "0 < n"
    and "\<forall>req. synth e (length (sent w)) req = ErrorDict em en"
    and "\<not> is_retryable (synth_fail_msg em en)"
  shows "fst (text_to_speech_with_retry e self utext out n lang opts cuid w) =
           Inr (False, retry_fail_msg n (synth_fail_msg em en)) \<and>
         length (sent (snd (text_to_speech_with_retry e self utext out n lang opts cuid w))) =
           Suc (length (sent w)) \<and>
         slept (snd (text_to_speech_with_retry e self utext out n lang opts cuid w)) = slept w"
proof -
  from \<open>0 < n\<close> obtain k where n: "nat n = Suc k"
    by (metis gr0_implies_Suc zero_less_nat_eq)
  show ?thesis
    using assms by (simp add: text_to_speech_with_retry_def n tts_unfold)
qed

theorem retry_stops_on_terminal_error_witness:
  "fst (text_to_speech_with_retry (error_env (asc ''bad'')) (baidu_tts_init [] [] []) (asc ''hi'')
        (asc ''a.mp3'') 3 ''zh'' None (asc ''c'') empty_world) =
     Inr (False, retry_fail_msg 3 (synth_fail_msg (Some (asc ''bad'')) None)) \<and>
   slept (snd (text_to_speech_with_retry (error_env (asc ''bad'')) (baidu_tts_init [] [] [])
        (asc ''hi'') (asc ''a.mp3'') 3 ''zh'' None (asc ''c'') empty_world)) = []"
proof -
  have "\<not> is_retryable (synth_fail_msg (Some (asc ''bad'')) None)"
    by (simp add: is_retryable_def synth_fail_msg_def literal_defs asc_def sublist_code)
  then show ?thesis
    using retry_stops_on_terminal_error [of "asc ''hi''" 2 3 "error_env (asc ''bad'')" empty_world
        "Some (asc ''bad'')" None "baidu_tts_init [] [] []" "asc ''a.mp3''" "''zh''" None "asc ''c''"]
    by (simp add: error_env_def empty_world_def asc_def)
qed

lemma retry_loop_all_transient:
  assumes "gbk_len utext = Some m" and "m \<le> 1024"
    and "\<forall>i req. synth e i req = ErrorDict em en"
    and "is_retryable (synth_fail_msg em en)"
  shows "retry_loop e self utext out lang opts cuid a (Suc k) prev w =
           (Inr (LoopDone (Some (synth_fail_msg em en))),
            w\<lparr>sent := sent w @ replicate (Suc k) (tts_req self utext lang opts cuid),
              printed := printed w @ map (\<lambda>i. retry_notice i (synth_fail_msg em en)) [a..<a + Suc k],
              slept := slept w @ map (\<lambda>i. 2 ^ i) [a..<a + Suc k]\<rparr>)"
proof (induction k arbitrary: a prev w)
  case 0
  then show ?case using assms by (simp add: tts_unfold)
next
  case (Suc k)
  let ?req = "tts_req self utext lang opts cuid"
  let ?w2 = "w\<lparr>sent := sent w @ [?req], printed := printed w @ [retry_notice a (synth_fail_msg em en)],
               slept := slept w @ [2 ^ a]\<rparr>"
  have step: "retry_loop e self utext out lang opts cuid a (Suc (Suc k)) prev w =
              retry_loop e self utext out lang opts cuid (Suc a) (Suc k) (Some (synth_fail_msg em en)) ?w2"
    using assms by (simp add: tts_unfold)
  have up: "map (\<lambda>i. (2::nat) ^ i) [a..<a + Suc (Suc k)] =
            2 ^ a # map (\<lambda>i. 2 ^ i) [Suc a..<Suc a + Suc k]"
    by (simp add: upt_conv_Cons del: upt_Suc)
  have up': "map (\<lambda>i. retry_notice i (synth_fail_msg em en)) [a..<a + Suc (Suc k)] =
            retry_notice a (synth_fail_msg em en) #
            map (\<lambda>i. retry_notice i (synth_fail_msg em en)) [Suc a..<Suc a + Suc k]"
    by (simp add: upt_conv_Cons del: upt_Suc)
  show ?case
    unfolding step Suc.IH using up up' by simp
qed

text \<open>
  C21: when every answer is a transient error, the wrapper makes \<open>max_retries\<close>
  calls, prints a retry notice and sleeps \<open>2 ^ i\<close> after each of them, after the
  last one too, before it reports the failure.
\<close>

theorem retry_exhausted_sleeps_after_last:
  assumes "gbk_len utext = Some m" and "m \<le> 1024" and "0 < n"
    and "\<forall>i req. synth e i req = ErrorDict em en"
    and "is_retryable (synth_fail_msg em en)"
  shows "fst (text_to_speech_with_retry e self utext out n lang opts cuid w) =
           Inr (False, retry_fail_msg n (synth_fail_msg em en)) \<and>
         length (sent (snd (text_to_speech_with_retry e self utext out n lang opts cuid w))) =
           length (sent w) + nat n \<and>
         printed (snd (text_to_speech_with_retry e self utext out n lang opts cuid w)) =
           printed w @ map (\<lambda>i. retry_notice i (synth_fail_msg em en)) [0..<nat n] \<and>
         slept (snd (text_to_speech_with_retry e self utext out n lang opts cuid w)) =
           slept w @ map (\<lambda>i. 2 ^ i) [0..<nat n]"
proof -
  from \<open>0 < n\<close> have n: "nat n = Suc (nat n - 1)" by simp
  have "retry_loop e self utext out lang opts cuid 0 (nat n) None w =
          (Inr (LoopDone (Some (synth_fail_msg em en))),
           w\<lparr>sent := sent w @ replicate (nat n) (tts_req self utext lang opts cuid),
             printed := printed w @ map (\<lambda>i. retry_notice i (synth_fail_msg em en)) [0..<nat n],
             slept := slept w @ map (\<lambda>i. 2 ^ i) [0..<nat n]\<rparr>)"
    using retry_loop_all_transient [OF assms(1,2,4,5), of self out lang opts cuid 0 "nat n - 1" None w] n
    by simp
  then show ?thesis by (simp add: text_to_speech_with_retry_def)
qed

theorem retry_exhausted_sleeps_after_last_witness:
  "fst (text_to_speech_with_retry (error_env lit_server_busy) (baidu_tts_init [] [] []) (asc ''hi'')
        (asc ''a.mp3'') 3 ''zh'' None (asc ''c'') empty_world) =
     Inr (False, retry_fail_msg 3 (synth_fail_msg (Some lit_server_busy) None)) \<and>
   slept (snd (text_to_speech_with_retry (error_env lit_server_busy) (baidu_tts_init [] [] [])
        (asc ''hi'') (asc ''a.mp3'') 3 ''zh'' None (asc ''c'') empty_world)) = [1, 2, 4]"
  using retry_exhausted_sleeps_after_last [of "asc ''hi''" 2 3 "error_env lit_server_busy"
      "Some lit_server_busy" None "baidu_tts_init [] [] []" "asc ''a.mp3''" "''zh''" None
      "asc ''c''" empty_world]
  by (simp add: error_env_def empty_world_def asc_def is_retryable_synth_fail numeral_eq_Suc)

text \<open>
  C22: with \<open>max_retries \<le> 0\<close> the loop body never runs and line 148 reads the
  unbound \<open>result\<close>: the wrapper raises instead of reporting a failure.
\<close>

theorem text_to_speech_with_retry_nonpositive:
  "n \<le> 0 \<Longrightarrow> text_to_speech_with_retry e self utext out n lang opts cuid w = (Inl UnboundLocalError, w)"
  by (simp add: text_to_speech_with_retry_def)

theorem text_to_speech_with_retry_nonpositive_witness:
  "text_to_speech_with_retry (busy_env 0) (baidu_tts_init [] [] []) (asc ''hi'') (asc ''a.mp3'') 0
     ''zh'' None (asc ''c'') empty_world = (Inl UnboundLocalError, empty_world)"
  by (rule text_to_speech_with_retry_nonpositive) simp

end
