(* ===== verification/HistoryDb.thy ===== *)
theory HistoryDb
  imports Prelude "HOL-Library.Multiset"
begin

text \<open>
  The \<open>AudioHistory\<close> table of app.py (lines 50--78) and the queries the handlers run
  on it.  The table is the list of its rows in rowid order.  SQLite gives a new row of
  a table with an \<open>INTEGER PRIMARY KEY\<close> (and no \<open>AUTOINCREMENT\<close>) the largest
  rowid plus one (\<open>next_rowid\<close>); the column default \<open>created_at\<close> is the clock
  at insertion.  A query's \<open>.first()\<close> is the first matching row in rowid order; the
  history listing orders by \<open>created_at\<close> descending with ties left in rowid order
  (SQL leaves the order of ties unspecified).
\<close>

section \<open>The table\<close>

record audio_history =
  ah_id :: nat
  ah_user_id :: nat
  ah_text :: ustr
  ah_filename :: ustr
  ah_voice_id :: int
  ah_voice_name :: ustr
  ah_speed :: int
  ah_pitch :: int
  ah_volume :: int
  ah_created_at :: nat

type_synonym history_table = "audio_history list"

definition next_rowid :: "history_table \<Rightarrow> nat" where
  "next_rowid rows = Suc (fold max (map ah_id rows) 0)"

text \<open>
  Lines 280--291: \<open>AudioHistory(...)\<close>, \<open>db.session.add\<close> and a successful
  \<open>commit\<close>: the row gets its id and its creation time.
\<close>

definition add_history ::
  "history_table \<Rightarrow> nat \<Rightarrow> ustr \<Rightarrow> ustr \<Rightarrow> int \<Rightarrow> ustr \<Rightarrow> int \<Rightarrow> int \<Rightarrow> int \<Rightarrow> nat \<Rightarrow> history_table" where
  "add_history rows user_id text filename voice_id voice_name speed pitch volume now =
     rows @ [\<lparr>ah_id = next_rowid rows, ah_user_id = user_id, ah_text = text,
              ah_filename = filename, ah_voice_id = voice_id, ah_voice_name = voice_name,
              ah_speed = speed, ah_pitch = pitch, ah_volume = volume, ah_created_at = now\<rparr>]"

section \<open>Queries\<close>

text \<open>Line 314: \<open>filter_by(filename=filename, user_id=uid).first()\<close>.\<close>

definition find_by_filename :: "history_table \<Rightarrow> ustr \<Rightarrow> nat \<Rightarrow> audio_history option" where
  "find_by_filename rows filename uid =
     find (\<lambda>h. ah_filename h = filename \<and> ah_user_id h = uid) rows"

text \<open>Line 359: \<open>filter_by(id=history_id, user_id=uid).first()\<close>.\<close>

definition find_by_id :: "history_table \<Rightarrow> nat \<Rightarrow> nat \<Rightarrow> audio_history option" where
  "find_by_id rows hid uid = find (\<lambda>h. ah_id h = hid \<and> ah_user_id h = uid) rows"

text \<open>
  Lines 329--331: the rows of one user, newest first, at most 50.  \<open>sort_key\<close> is a
  stable sort, so rows with the same time stay in rowid order.
\<close>

definition history_query :: "history_table \<Rightarrow> nat \<Rightarrow> history_table" where
  "history_query rows uid =
     take 50 (sort_key (\<lambda>h. - int (ah_created_at h)) (filter (\<lambda>h. ah_user_id h = uid) rows))"

text \<open>Line 345: \<open>filter_by(user_id=uid).delete()\<close>.\<close>

definition delete_by_user :: "history_table \<Rightarrow> nat \<Rightarrow> history_table" where
  "delete_by_user rows uid = filter (\<lambda>h. ah_user_id h \<noteq> uid) rows"

text \<open>Line 370: \<open>db.session.delete(audio)\<close> deletes the row with the object's primary key.\<close>

definition delete_row :: "history_table \<Rightarrow> audio_history \<Rightarrow> history_table" where
  "delete_row rows a = filter (\<lambda>h. ah_id h \<noteq> ah_id a) rows"

section \<open>The JSON view of a row\<close>

text \<open>
  Lines 66--78, \<open>to_dict\<close>: the download URL is \<open>url_for('download_audio')\<close>, the
  route \<open>/api/audio/<filename>\<close>.  The timestamp is kept as the clock value; its
  \<open>strftime\<close> rendering is not modelled.
\<close>

record hist_view =
  hv_id :: nat
  hv_text :: ustr
  hv_filename :: ustr
  hv_audio_url :: ustr
  hv_voice_id :: int
  hv_voice_name :: ustr
  hv_speed :: int
  hv_pitch :: int
  hv_volume :: int
  hv_created_at :: nat

definition download_url :: "ustr \<Rightarrow> ustr" where
  "download_url filename = asc ''/api/audio/'' @ filename"

definition to_dict :: "audio_history \<Rightarrow> hist_view" where
  "to_dict h =
     \<lparr>hv_id = ah_id h, hv_text = ah_text h, hv_filename = ah_filename h,
      hv_audio_url = download_url (ah_filename h), hv_voice_id = ah_voice_id h,
      hv_voice_name = ah_voice_name h, hv_speed = ah_speed h, hv_pitch = ah_pitch h,
      hv_volume = ah_volume h, hv_created_at = ah_created_at h\<rparr>"

section \<open>Lemmas on the table and its queries\<close>

lemma next_rowid_gt: "h \<in> set rows \<Longrightarrow> ah_id h < next_rowid rows"
  using fold_max_ge [of "ah_id h" "map ah_id rows" 0] by (simp add: next_rowid_def)

lemma next_rowid_fresh: "next_rowid rows \<notin> ah_id ` set rows"
  using next_rowid_gt by fastforce

lemma add_history_distinct_ids:
  "distinct (map ah_id rows) \<Longrightarrow>
   distinct (map ah_id (add_history rows u t f v vn sp pi vo now))"
  by (simp add: add_history_def next_rowid_fresh)

lemma set_add_history:
  "set (add_history rows u t f v vn sp pi vo now) =
   insert \<lparr>ah_id = next_rowid rows, ah_user_id = u, ah_text = t, ah_filename = f,
           ah_voice_id = v, ah_voice_name = vn, ah_speed = sp, ah_pitch = pi,
           ah_volume = vo, ah_created_at = now\<rparr> (set rows)"
  by (auto simp: add_history_def)

text \<open>
  C25: the history listing of a user is the first 50 rows of a newest-first ordering
  of exactly that user's rows.
\<close>

theorem history_query_spec:
  "\<exists>L. mset L = mset (filter (\<lambda>h. ah_user_id h = uid) rows) \<and>
       sorted_wrt (\<lambda>a b. ah_created_at b \<le> ah_created_at a) L \<and>
       history_query rows uid = take 50 L"
proof -
  let ?f = "\<lambda>h. - int (ah_created_at h)"
  let ?L = "sort_key ?f (filter (\<lambda>h. ah_user_id h = uid) rows)"
  have "sorted (map ?f ?L)" by (rule sorted_sort_key)
  then have "sorted_wrt (\<lambda>a b. ?f a \<le> ?f b) ?L" by (simp add: sorted_map)
  then have "sorted_wrt (\<lambda>a b. ah_created_at b \<le> ah_created_at a) ?L"
    by (rule sorted_wrt_mono_rel [rotated]) simp
  then show ?thesis
    by (intro exI [of _ ?L]) (simp add: history_query_def)
qed

lemma history_query_owned: "h \<in> set (history_query rows uid) \<Longrightarrow> ah_user_id h = uid \<and> h \<in> set rows"
  by (auto simp: history_query_def dest: in_set_takeD)

lemma history_query_length: "length (history_query rows uid) \<le> 50"
  by (simp add: history_query_def)

lemma find_by_id_owner: "find_by_id rows hid uid = find_by_id (filter (\<lambda>h. ah_user_id h = uid) rows) hid uid"
  by (simp add: find_by_id_def find_filter_conj)

lemma find_by_filename_owner:
  "find_by_filename rows fn uid = find_by_filename (filter (\<lambda>h. ah_user_id h = uid) rows) fn uid"
  by (simp add: find_by_filename_def find_filter_conj)

lemma find_by_id_Some:
  "find_by_id rows hid uid = Some a \<Longrightarrow> a \<in> set rows \<and> ah_id a = hid \<and> ah_user_id a = uid"
  by (auto simp: find_by_id_def dest: find_SomeD)

lemma find_by_id_None:
  "find_by_id rows hid uid = None \<longleftrightarrow> (\<forall>h\<in>set rows. ah_id h = hid \<longrightarrow> ah_user_id h \<noteq> uid)"
  by (auto simp: find_by_id_def find_None_iff)

lemma find_by_filename_Some:
  "find_by_filename rows fn uid = Some a \<Longrightarrow> a \<in> set rows \<and> ah_filename a = fn \<and> ah_user_id a = uid"
  by (auto simp: find_by_filename_def dest: find_SomeD)

lemma find_by_filename_None:
  "find_by_filename rows fn uid = None \<longleftrightarrow> (\<forall>h\<in>set rows. ah_filename h = fn \<longrightarrow> ah_user_id h \<noteq> uid)"
  by (auto simp: find_by_filename_def find_None_iff)

lemma delete_row_add_history:
  "delete_row (add_history rows u t f v vn sp pi vo now) (last (add_history rows u t f v vn sp pi vo now)) = rows"
proof -
  have "\<forall>h\<in>set rows. ah_id h \<noteq> next_rowid rows" using next_rowid_gt by fastforce
  then show ?thesis by (simp add: delete_row_def add_history_def)
qed

text \<open>
  C27: row ids are not monotonic: after the newest row is deleted, the next insertion
  gets the deleted row's id again.
\<close>

theorem next_rowid_reused:
  "next_rowid (delete_row (add_history rows u t f v vn sp pi vo now)
                 (last (add_history rows u t f v vn sp pi vo now))) =
   ah_id (last (add_history rows u t f v vn sp pi vo now))"
  by (simp add: delete_row_add_history) (simp add: add_history_def)

end
