(* ===== verification/App.thy ===== *)
theory App
  imports Tts HistoryDb
begin

text \<open>
  The audio endpoints of the Flask application,
  src/Software-engineering-final-project-XianWai-AI-podcast/app.py.  The state of a
  running server is \<open>app_state\<close>: the world of World.thy (files, provider calls,
  sleeps) extended by the \<open>AudioHistory\<close> table.  A request runs against an
  \<open>app_env\<close>: the provider and disk answers of World.thy extended by what else the
  code does not determine, the \<open>uuid4\<close> token, the clock, whether the database
  commit and \<open>os.remove\<close> fail, and the salt werkzeug draws for a password hash
  (used by the registration route of Auth.thy).  The session's \<open>user_id\<close> is an argument
  (\<open>None\<close> when not logged in); the module-level \<open>tts_client\<close> is the argument
  \<open>client\<close>.  Handlers, in the order of the file: \<open>generate_audio\<close> (its
  \<open>try\<close> block is \<open>generate_run\<close>), \<open>download_audio\<close>, \<open>history\<close> and
  \<open>delete_history_item\<close>; \<open>handle\<close> dispatches a request to them.
\<close>

section \<open>String literals of the handlers\<close>

text \<open>Lines 211, 231, 311, 325, 357: not logged in.\<close>

definition lit_not_logged_in :: ustr where
  [literal_defs]: "lit_not_logged_in = [0x672A, 0x767B, 0x5F55]"

text \<open>Line 236: the speech service is not configured.\<close>

definition lit_not_configured :: ustr where
  [literal_defs]: "lit_not_configured = [0x8BED, 0x97F3, 0x670D, 0x52A1, 0x672A, 0x914D, 0x7F6E, 0xFF0C, 0x8BF7, 0x5728, 0x73AF, 0x5883, 0x53D8, 0x91CF, 0x4E2D, 0x8BBE, 0x7F6E] @ asc ''BAIDU_APP_ID'' @ [0x3001] @ asc ''BAIDU_API_KEY'' @ [0x548C] @ asc ''BAIDU_SECRET_KEY''"

text \<open>Line 247: empty text.\<close>

definition lit_text_empty :: ustr where
  [literal_defs]: "lit_text_empty = [0x6587, 0x672C, 0x4E0D, 0x80FD, 0x4E3A, 0x7A7A]"

text \<open>Line 252: oversize text.\<close>

definition lit_text_too_long :: ustr where
  [literal_defs]: "lit_text_too_long = [0x6587, 0x672C, 0x957F, 0x5EA6, 0x8D85, 0x8FC7] @ asc ''1024'' @ [0x5B57, 0x8282, 0x9650, 0x5236]"

text \<open>Line 261: prefix of the fallback voice name.\<close>

definition lit_speaker :: ustr where
  [literal_defs]: "lit_speaker = [0x53D1, 0x97F3, 0x4EBA]"

text \<open>Line 295: generated.\<close>

definition lit_gen_ok :: ustr where
  [literal_defs]: "lit_gen_ok = [0x751F, 0x6210, 0x6210, 0x529F]"

text \<open>Line 304: prefix of the generation failure.\<close>

definition lit_gen_failed :: ustr where
  [literal_defs]: "lit_gen_failed = [0x751F, 0x6210, 0x5931, 0x8D25] @ asc '': ''"

text \<open>Line 316: no such file or no access.\<close>

definition lit_forbidden :: ustr where
  [literal_defs]: "lit_forbidden = [0x6587, 0x4EF6, 0x4E0D, 0x5B58, 0x5728, 0x6216, 0x65E0, 0x6743, 0x8BBF, 0x95EE]"

text \<open>Line 340: saved.\<close>

definition lit_saved :: ustr where
  [literal_defs]: "lit_saved = [0x5DF2, 0x4FDD, 0x5B58]"

text \<open>Line 347: history cleared.\<close>

definition lit_cleared :: ustr where
  [literal_defs]: "lit_cleared = [0x5386, 0x53F2, 0x8BB0, 0x5F55, 0x5DF2, 0x6E05, 0x7A7A]"

text \<open>Line 350: prefix of the clearing failure.\<close>

definition lit_clear_failed :: ustr where
  [literal_defs]: "lit_clear_failed = [0x6E05, 0x7A7A, 0x5931, 0x8D25] @ asc '': ''"

text \<open>Line 361: no such record.\<close>

definition lit_record_missing :: ustr where
  [literal_defs]: "lit_record_missing = [0x8BB0, 0x5F55, 0x4E0D, 0x5B58, 0x5728]"

text \<open>Line 373: deleted.\<close>

definition lit_deleted :: ustr where
  [literal_defs]: "lit_deleted = [0x5220, 0x9664, 0x6210, 0x529F]"

text \<open>Line 376: prefix of the deletion failure.\<close>

definition lit_delete_failed :: ustr where
  [literal_defs]: "lit_delete_failed = [0x5220, 0x9664, 0x5931, 0x8D25] @ asc '': ''"

section \<open>State, environment, requests and responses\<close>

record app_state = world +
  hist :: history_table

record app_env = env +
  token :: ustr
  now :: nat
  commit_err :: "ustr option"
  remove_err :: "ustr option"
  pw_salt :: ustr

text \<open>The JSON body of a generation request; a missing key is \<open>None\<close>.\<close>

record gen_json =
  gj_text :: "ustr option"
  gj_voice :: "int option"
  gj_speed :: "int option"
  gj_pitch :: "int option"
  gj_volume :: "int option"

datatype http_method = GET | POST | DELETE

text \<open>
  The fields of a JSON response besides \<open>success\<close> and \<open>message\<close>: those of
  generate_audio (URL and file name), of the history listing, of login and
  registration (the user name) and of user_info (id, name, e-mail, creation time).
\<close>

datatype payload = NoPayload | Generated ustr ustr | HistoryItems "hist_view list"
  | UserName ustr | UserInfo nat ustr ustr nat

text \<open>
  A JSON response (status, \<open>success\<close>, \<open>message\<close>, other fields), a file sent by
  \<open>send_from_directory\<close>, Werkzeug's 404 page, the 500 page of an uncaught
  exception, a redirect to a URL, a rendered template (its name and the
  \<open>username\<close> passed to it), or the 405 answer to a method the route does not take.
\<close>

datatype response = Json nat bool "ustr option" payload | SendFile path bytes | NotFoundPage
  | InternalError | Redirect ustr | Template ustr "ustr option" | MethodNotAllowed

datatype request =
    GenerateAudio "nat option" "gen_json option"
  | DownloadAudio "nat option" ustr
  | History "nat option" http_method
  | DeleteHistoryItem "nat option" nat

section \<open>Configuration\<close>

text \<open>Line 13: \<open>UPLOAD_FOLDER\<close>.\<close>

definition upload_folder :: path where
  "upload_folder = asc ''uploads''"

text \<open>Lines 26--32: the client exists only when the three credentials are set.\<close>

definition init_tts_client :: "ustr \<Rightarrow> ustr \<Rightarrow> ustr \<Rightarrow> baidu_tts option" where
  "init_tts_client aid key secret =
     (if aid \<noteq> [] \<and> key \<noteq> [] \<and> secret \<noteq> [] then Some (baidu_tts_init aid key secret) else None)"

section \<open>generate_audio\<close>

text \<open>Line 261: \<open>voices.get(voice, f'...{voice}')\<close>.\<close>

definition voice_label :: "int \<Rightarrow> ustr" where
  "voice_label voice =
     (case map_of get_supported_voices voice of
        Some name \<Rightarrow> name
      | None \<Rightarrow> lit_speaker @ show_int voice)"

text \<open>Lines 264--269: the options passed to the client.\<close>

definition gen_options :: "int \<Rightarrow> int \<Rightarrow> int \<Rightarrow> int \<Rightarrow> pydict" where
  "gen_options voice speed pitch volume =
     [(''spd'', OInt speed), (''pit'', OInt pitch), (''vol'', OInt volume), (''per'', OInt voice)]"

text \<open>\<open>str(e)\<close> of an exception the handler catches, by the exception's class.\<close>

definition exc_text :: "py_exc \<Rightarrow> ustr" where
  "exc_text x =
     (case x of
        UnicodeEncodeError \<Rightarrow> asc ''UnicodeEncodeError''
      | UnboundLocalError \<Rightarrow> asc ''UnboundLocalError''
      | AttributeError \<Rightarrow> asc ''AttributeError'')"

text \<open>
  Lines 254--304, the \<open>try\<close> block: file name from the token, synthesis into the
  upload folder, then the history row.  A failing commit is caught, the session rolled
  back, and 500 returned; the file written by the client stays on disk.
\<close>

definition generate_run ::
  "baidu_tts \<Rightarrow> 'x app_env_scheme \<Rightarrow> nat \<Rightarrow> ustr \<Rightarrow> int \<Rightarrow> int \<Rightarrow> int \<Rightarrow> int \<Rightarrow>
   app_state \<Rightarrow> response \<times> app_state" where
  "generate_run tts e uid text voice speed pitch volume s =
     (let filename = token e @ asc ''.mp3'';
          filepath = path_join upload_folder filename;
          voice_name = voice_label voice;
          options = gen_options voice speed pitch volume;
          cuid = asc ''user_'' @ show_int (int uid)
      in case text_to_speech e tts text filepath ''zh'' (Some options) cuid s of
           (Inl x, s1) \<Rightarrow> (Json 500 False (Some (lit_gen_failed @ exc_text x)) NoPayload, s1)
         | (Inr (True, _), s1) \<Rightarrow>
             (case commit_err e of
                None \<Rightarrow>
                  (Json 200 True (Some lit_gen_ok) (Generated (download_url filename) filename),
                   s1\<lparr>hist := add_history (hist s1) uid text filename voice voice_name
                                   speed pitch volume (now e)\<rparr>)
              | Some m \<Rightarrow> (Json 500 False (Some (lit_gen_failed @ m)) NoPayload, s1))
         | (Inr (False, m), s1) \<Rightarrow> (Json 500 False (Some m) NoPayload, s1))"

text \<open>
  Lines 227--304.  A body that is not JSON makes \<open>data.get\<close> raise; an unencodable
  text makes line 250, which is outside the \<open>try\<close>, raise.
\<close>

definition generate_audio ::
  "baidu_tts option \<Rightarrow> 'x app_env_scheme \<Rightarrow> nat option \<Rightarrow> gen_json option \<Rightarrow> app_state \<Rightarrow>
   response \<times> app_state" where
  "generate_audio client e uid data s =
     (case uid of
        None \<Rightarrow> (Json 401 False (Some lit_not_logged_in) NoPayload, s)
      | Some u \<Rightarrow>
          (case client of
             None \<Rightarrow> (Json 500 False (Some lit_not_configured) NoPayload, s)
           | Some tts \<Rightarrow>
               (case data of
                  None \<Rightarrow> (InternalError, s)
                | Some d \<Rightarrow>
                    let text = py_strip (py_get (gj_text d) []);
                        voice = py_get (gj_voice d) 0;
                        speed = py_get (gj_speed d) 5;
                        pitch = py_get (gj_pitch d) 5;
                        volume = py_get (gj_volume d) 5
                    in if text = [] then (Json 400 False (Some lit_text_empty) NoPayload, s)
                       else (case gbk_len text of
                               None \<Rightarrow> (InternalError, s)
                             | Some n \<Rightarrow>
                                 if 1024 < n then (Json 400 False (Some lit_text_too_long) NoPayload, s)
                                 else generate_run tts e u text voice speed pitch volume s))))"

section \<open>download_audio\<close>

text \<open>
  \<open>send_from_directory(UPLOAD_FOLDER, filename)\<close>: the file, or 404 when it is
  missing.  The name always comes from a matching row here.
\<close>

definition send_from_directory :: "path \<Rightarrow> ustr \<Rightarrow> app_state \<Rightarrow> response" where
  "send_from_directory d filename s =
     (case files s (path_join d filename) of
        Some b \<Rightarrow> SendFile (path_join d filename) b
      | None \<Rightarrow> NotFoundPage)"

text \<open>Lines 307--318: the file is served only when a row of the user names it.\<close>

definition download_audio :: "nat option \<Rightarrow> ustr \<Rightarrow> app_state \<Rightarrow> response" where
  "download_audio uid filename s =
     (case uid of
        None \<Rightarrow> Json 401 False (Some lit_not_logged_in) NoPayload
      | Some u \<Rightarrow>
          (case find_by_filename (hist s) filename u of
             None \<Rightarrow> Json 403 False (Some lit_forbidden) NoPayload
           | Some _ \<Rightarrow> send_from_directory upload_folder filename s))"

section \<open>history\<close>

text \<open>
  Lines 321--350: the listing, the obsolete \<open>POST\<close>, and clearing the user's rows,
  which deletes no file.
\<close>

definition history ::
  "'x app_env_scheme \<Rightarrow> nat option \<Rightarrow> http_method \<Rightarrow> app_state \<Rightarrow> response \<times> app_state" where
  "history e uid method s =
     (case uid of
        None \<Rightarrow> (Json 401 False (Some lit_not_logged_in) NoPayload, s)
      | Some u \<Rightarrow>
          (case method of
             GET \<Rightarrow> (Json 200 True None (HistoryItems (map to_dict (history_query (hist s) u))), s)
           | POST \<Rightarrow> (Json 200 True (Some lit_saved) NoPayload, s)
           | DELETE \<Rightarrow>
               (case commit_err e of
                  None \<Rightarrow> (Json 200 True (Some lit_cleared) NoPayload,
                           s\<lparr>hist := delete_by_user (hist s) u\<rparr>)
                | Some m \<Rightarrow> (Json 500 False (Some (lit_clear_failed @ m)) NoPayload, s))))"

section \<open>delete_history_item\<close>

text \<open>
  Lines 353--376: the file is removed first, when it exists, and the row deleted and
  committed after; a failing commit rolls back the row but not the removal.
\<close>

definition delete_history_item ::
  "'x app_env_scheme \<Rightarrow> nat option \<Rightarrow> nat \<Rightarrow> app_state \<Rightarrow> response \<times> app_state" where
  "delete_history_item e uid history_id s =
     (case uid of
        None \<Rightarrow> (Json 401 False (Some lit_not_logged_in) NoPayload, s)
      | Some u \<Rightarrow>
          (case find_by_id (hist s) history_id u of
             None \<Rightarrow> (Json 404 False (Some lit_record_missing) NoPayload, s)
           | Some a \<Rightarrow>
               let filepath = path_join upload_folder (ah_filename a)
               in case (if path_exists filepath s then remove_file (remove_err e) filepath s
                        else (None, s)) of
                    (Some m, s1) \<Rightarrow> (Json 500 False (Some (lit_delete_failed @ m)) NoPayload, s1)
                  | (None, s1) \<Rightarrow>
                      (case commit_err e of
                         None \<Rightarrow> (Json 200 True (Some lit_deleted) NoPayload,
                                  s1\<lparr>hist := delete_row (hist s1) a\<rparr>)
                       | Some m \<Rightarrow> (Json 500 False (Some (lit_delete_failed @ m)) NoPayload, s1))))"

section \<open>Dispatch\<close>

definition handle ::
  "baidu_tts option \<Rightarrow> 'x app_env_scheme \<Rightarrow> request \<Rightarrow> app_state \<Rightarrow> response \<times> app_state" where
  "handle client e rq s =
     (case rq of
        GenerateAudio uid data \<Rightarrow> generate_audio client e uid data s
      | DownloadAudio uid filename \<Rightarrow> (download_audio uid filename s, s)
      | History uid method \<Rightarrow> history e uid method s
      | DeleteHistoryItem uid history_id \<Rightarrow> delete_history_item e uid history_id s)"

section \<open>Well-formed responses\<close>

text \<open>
  A JSON response uses one of the status codes of the handlers, and its
  \<open>success\<close> field is true exactly for 200.
\<close>

fun json_ok :: "response \<Rightarrow> bool" where
  "json_ok (Json code success msg pl) \<longleftrightarrow>
     code \<in> {200, 400, 401, 403, 404, 500} \<and> (success \<longleftrightarrow> code = 200)"
| "json_ok _ \<longleftrightarrow> True"

section \<open>Sample inputs\<close>

text \<open>
  A configured client, an environment in which the provider returns audio and every
  write succeeds (with a given token, commit failure and remove failure), a request
  body with only a text, and a state holding given rows, each with its file.
\<close>

definition sample_client :: baidu_tts where
  "sample_client = baidu_tts_init (asc ''id'') (asc ''key'') (asc ''secret'')"

definition sample_env :: "ustr \<Rightarrow> ustr option \<Rightarrow> ustr option \<Rightarrow> app_env" where
  "sample_env tok cerr rerr =
     \<lparr>synth = (\<lambda>i req. Audio [73]), disk = (\<lambda>p b. WriteOk), token = tok, now = 0,
      commit_err = cerr, remove_err = rerr, pw_salt = []\<rparr>"

definition text_json :: "ustr \<Rightarrow> gen_json" where
  "text_json t = \<lparr>gj_text = Some t, gj_voice = None, gj_speed = None, gj_pitch = None, gj_volume = None\<rparr>"

definition sample_row :: "nat \<Rightarrow> nat \<Rightarrow> ustr \<Rightarrow> audio_history" where
  "sample_row i uid fn =
     \<lparr>ah_id = i, ah_user_id = uid, ah_text = asc ''t'', ah_filename = fn, ah_voice_id = 0,
      ah_voice_name = [], ah_speed = 5, ah_pitch = 5, ah_volume = 5, ah_created_at = 0\<rparr>"

definition sample_state :: "history_table \<Rightarrow> app_state" where
  "sample_state rows =
     \<lparr>files = map_of (map (\<lambda>h. (path_join upload_folder (ah_filename h), [73])) rows),
      sent = [], slept = [], printed = [], hist = rows\<rparr>"

section \<open>Lemmas on the handlers\<close>

lemmas sample_defs = sample_client_def sample_env_def text_json_def sample_row_def sample_state_def
  baidu_tts_init_def

lemma generate_run_json_ok: "json_ok (fst (generate_run tts e u t v sp pi vo s))"
  by (simp add: generate_run_def Let_def split: prod.split sum.split bool.split option.split)

lemma generate_audio_json_ok: "json_ok (fst (generate_audio client e uid data s))"
  by (simp add: generate_audio_def Let_def generate_run_json_ok
           split: option.split if_split)

lemma handle_json_ok: "json_ok (fst (handle client e rq s))"
  by (simp add: handle_def generate_audio_json_ok download_audio_def send_from_directory_def
       history_def delete_history_item_def Let_def
       split: request.split option.split http_method.split prod.split if_split)

lemma text_to_speech_hist [simp]:
  "hist (snd (text_to_speech e self utext out lang opts cuid s)) = hist s"
  by (simp add: tts_unfold split: option.splits synth_reply.splits write_outcome.splits)

lemma text_to_speech_files_exist:
  "files s p \<noteq> None \<Longrightarrow> files (snd (text_to_speech e self utext out lang opts cuid s)) p \<noteq> None"
  by (simp add: tts_unfold split: option.splits synth_reply.splits write_outcome.splits)

text \<open>
  C2: a text that is empty after stripping, or longer than 1024 GBK bytes, is refused
  with 400 before anything happens: the state is unchanged, so no provider call, no
  file and no row.
\<close>

theorem generate_audio_rejects_invalid:
  assumes "t = py_strip (py_get (gj_text d) [])"
    and "t = [] \<or> (\<exists>n. gbk_len t = Some n \<and> 1024 < n)"
  shows "generate_audio (Some tts) e (Some u) (Some d) s =
           (Json 400 False (Some (if t = [] then lit_text_empty else lit_text_too_long)) NoPayload, s)"
  using assms by (auto simp: generate_audio_def Let_def)

text \<open>
  C1: a successful generation (a 200 response) stores the record the request
  describes: the next row id, the user, the stripped text, the file name from the
  token, the voice parameters with their defaults and the resolved voice name, and the
  clock; the one provider call carried the text and options, and the upload file holds
  the provider's audio.
\<close>

theorem generate_audio_success:
  assumes ok: "fst (generate_audio (Some tts) e (Some u) (Some d) s) = Json 200 True msg pl"
    and t: "t = py_strip (py_get (gj_text d) [])"
    and v: "v = py_get (gj_voice d) 0" "sp = py_get (gj_speed d) 5"
           "pi = py_get (gj_pitch d) 5" "vo = py_get (gj_volume d) 5"
    and fn: "fn = token e @ asc ''.mp3''"
  shows "pl = Generated (download_url fn) fn \<and>
         hist (snd (generate_audio (Some tts) e (Some u) (Some d) s)) =
           add_history (hist s) u t fn v (voice_label v) sp pi vo (now e) \<and>
         sent (snd (generate_audio (Some tts) e (Some u) (Some d) s)) =
           sent s @ [tts_req tts t ''zh'' (Some (gen_options v sp pi vo)) (asc ''user_'' @ show_int (int u))] \<and>
         (\<exists>b. synth e (length (sent s))
                (tts_req tts t ''zh'' (Some (gen_options v sp pi vo)) (asc ''user_'' @ show_int (int u))) = Audio b \<and>
              files (snd (generate_audio (Some tts) e (Some u) (Some d) s)) (path_join upload_folder fn) = Some b)"
proof -
  let ?cuid = "asc ''user_'' @ show_int (int u)"
  let ?p = "path_join upload_folder fn"
  let ?R = "text_to_speech e tts t ?p ''zh'' (Some (gen_options v sp pi vo)) ?cuid s"
  have valid: "t \<noteq> [] \<and> (\<exists>n. gbk_len t = Some n \<and> n \<le> 1024)"
    using ok t by (auto simp: generate_audio_def Let_def generate_run_def split: option.splits if_splits)
  then have run: "generate_audio (Some tts) e (Some u) (Some d) s = generate_run tts e u t v sp pi vo s"
    using t v by (auto simp: generate_audio_def Let_def)
  obtain r1 s1 where R: "?R = (r1, s1)" by fastforce
  have "\<exists>x. r1 = Inr (True, x)" and commit: "commit_err e = None"
    using ok fn R unfolding run
    by (auto simp: generate_run_def Let_def split: sum.splits bool.splits option.splits)
  then obtain x where x: "r1 = Inr (True, x)" by blast
  with R have "fst ?R = Inr (True, x)" by simp
  note succ = text_to_speech_success_facts [OF this]
  have h: "hist s1 = hist s"
    using text_to_speech_hist [of e tts t ?p "''zh''" "Some (gen_options v sp pi vo)" ?cuid s] R by simp
  have res: "generate_audio (Some tts) e (Some u) (Some d) s =
               (Json 200 True (Some lit_gen_ok) (Generated (download_url fn) fn),
                s1\<lparr>hist := add_history (hist s) u t fn v (voice_label v) sp pi vo (now e)\<rparr>)"
    unfolding run using R x commit fn h by (simp add: generate_run_def Let_def)
  show ?thesis
    using succ ok R unfolding res by auto
qed

text \<open>
  C4: what a download returns to a user depends only on that user's rows and the
  files: other users' rows cannot change it.
\<close>

theorem download_audio_owner_isolation:
  assumes "filter (\<lambda>h. ah_user_id h = u) (hist s) = filter (\<lambda>h. ah_user_id h = u) (hist s')"
    and "files s = files s'"
  shows "download_audio (Some u) fn s = download_audio (Some u) fn s'"
proof -
  have "find_by_filename (hist s) fn u = find_by_filename (hist s') fn u"
    using assms(1) by (metis find_by_filename_owner)
  with assms(2) show ?thesis
    by (simp add: download_audio_def send_from_directory_def split: option.split)
qed

text \<open>
  C28: a file that belongs only to other users is answered exactly like a missing one
  (403, the same message).
\<close>

theorem download_audio_other_owner:
  "\<forall>h\<in>set (hist s). ah_filename h = fn \<longrightarrow> ah_user_id h \<noteq> u \<Longrightarrow>
   download_audio (Some u) fn s = Json 403 False (Some lit_forbidden) NoPayload"
  by (simp add: download_audio_def find_by_filename_None [symmetric])

text \<open>
  C5: deleting a history id that belongs to another user, or to nobody, answers 404
  and changes nothing.
\<close>

theorem delete_history_item_other_owner:
  "\<forall>h\<in>set (hist s). ah_id h = hid \<longrightarrow> ah_user_id h \<noteq> u \<Longrightarrow>
   delete_history_item e (Some u) hid s = (Json 404 False (Some lit_record_missing) NoPayload, s)"
  by (simp add: delete_history_item_def find_by_id_None [symmetric])

text \<open>
  C9: clearing the history deletes exactly the user's rows and removes none of their
  files.
\<close>

theorem history_clear_keeps_files:
  "commit_err e = None \<Longrightarrow>
   history e (Some u) DELETE s =
     (Json 200 True (Some lit_cleared) NoPayload,
      s\<lparr>hist := filter (\<lambda>h. ah_user_id h \<noteq> u) (hist s)\<rparr>)"
  by (simp add: history_def delete_by_user_def)

text \<open>
  C8: when the history commit fails after a successful synthesis, the handler answers
  500 and adds no row, but the audio file it wrote stays in the upload folder (no
  compensating delete).
\<close>

theorem generate_run_commit_failure_keeps_file:
  assumes "commit_err e = Some m"
    and "fst (text_to_speech e tts t (path_join upload_folder (token e @ asc ''.mp3'')) ''zh''
               (Some (gen_options v sp pi vo)) (asc ''user_'' @ show_int (int u)) s) = Inr (True, r)"
  shows "fst (generate_run tts e u t v sp pi vo s) = Json 500 False (Some (lit_gen_failed @ m)) NoPayload \<and>
         hist (snd (generate_run tts e u t v sp pi vo s)) = hist s \<and>
         files (snd (generate_run tts e u t v sp pi vo s)) (path_join upload_folder (token e @ asc ''.mp3'')) \<noteq> None"
proof -
  let ?R = "text_to_speech e tts t (path_join upload_folder (token e @ asc ''.mp3'')) ''zh''
               (Some (gen_options v sp pi vo)) (asc ''user_'' @ show_int (int u)) s"
  obtain s1 where R: "?R = (Inr (True, r), s1)" using assms(2) by (metis prod.collapse)
  note succ = text_to_speech_success_facts [OF assms(2)]
  have "generate_run tts e u t v sp pi vo s = (Json 500 False (Some (lit_gen_failed @ m)) NoPayload, s1)"
    using R assms(1) by (simp add: generate_run_def Let_def)
  moreover have "hist s1 = hist s" using text_to_speech_hist [of e tts t] R by (metis snd_conv)
  ultimately show ?thesis using succ R by auto
qed

text \<open>
  C7: when the commit of a single deletion fails after the file was removed, the row
  stays and its file is gone.
\<close>

theorem delete_history_item_commit_failure:
  assumes "find_by_id (hist s) hid u = Some a" and "remove_err e = None" and "commit_err e = Some m"
  shows "delete_history_item e (Some u) hid s =
           (Json 500 False (Some (lit_delete_failed @ m)) NoPayload,
            s\<lparr>files := (files s)(path_join upload_folder (ah_filename a) := None)\<rparr>)"
  using assms
  by (cases "files s (path_join upload_folder (ah_filename a))")
     (auto simp: delete_history_item_def path_exists_def remove_file_def Let_def fun_upd_idem)

theorem delete_history_item_success:
  assumes "find_by_id (hist s) hid u = Some a" and "remove_err e = None" and "commit_err e = None"
  shows "delete_history_item e (Some u) hid s =
           (Json 200 True (Some lit_deleted) NoPayload,
            s\<lparr>files := (files s)(path_join upload_folder (ah_filename a) := None),
              hist := delete_row (hist s) a\<rparr>)"
  using assms
  by (cases "files s (path_join upload_folder (ah_filename a))")
     (auto simp: delete_history_item_def path_exists_def remove_file_def Let_def fun_upd_idem)

theorem generate_audio_success_witness:
  "hist (snd (generate_audio (Some sample_client) (sample_env (asc ''ab'') None None) (Some 1)
               (Some (text_json (asc ''hi''))) (sample_state []))) =
   add_history [] 1 (asc ''hi'') (asc ''ab'' @ asc ''.mp3'') 0 (voice_label 0) 5 5 5 0"
proof -
  have ok: "fst (generate_audio (Some sample_client) (sample_env (asc ''ab'') None None) (Some 1)
               (Some (text_json (asc ''hi''))) (sample_state [])) =
            Json 200 True (Some lit_gen_ok)
              (Generated (download_url (asc ''ab'' @ asc ''.mp3'')) (asc ''ab'' @ asc ''.mp3''))"
    by (simp add: generate_audio_def generate_run_def tts_unfold sample_defs py_get_def py_strip_def
                  py_isspace_def asc_def)
  show ?thesis
    using generate_audio_success [OF ok refl refl refl refl refl refl]
    by (simp add: sample_defs py_get_def py_strip_def py_isspace_def asc_def)
qed

theorem generate_audio_rejects_invalid_witness:
  "generate_audio (Some sample_client) (sample_env (asc ''ab'') None None) (Some 1)
     (Some (text_json (asc ''  ''))) (sample_state []) =
   (Json 400 False (Some lit_text_empty) NoPayload, sample_state [])"
  using generate_audio_rejects_invalid [of "[]" "text_json (asc ''  '')" sample_client
      "sample_env (asc ''ab'') None None" 1 "sample_state []"]
  by (simp add: text_json_def py_get_def py_strip_def py_isspace_def asc_def)

theorem download_audio_owner_isolation_witness:
  "download_audio (Some 1) (asc ''a.mp3'')
     (sample_state [sample_row 1 1 (asc ''a.mp3''), sample_row 2 2 (asc ''b.mp3'')]) =
   download_audio (Some 1) (asc ''a.mp3'')
     ((sample_state [sample_row 1 1 (asc ''a.mp3''), sample_row 2 2 (asc ''b.mp3'')])
        \<lparr>hist := [sample_row 1 1 (asc ''a.mp3'')]\<rparr>)"
  by (rule download_audio_owner_isolation) (simp_all add: sample_state_def sample_row_def)

theorem download_audio_other_owner_witness:
  "download_audio (Some 1) (asc ''b.mp3'') (sample_state [sample_row 2 2 (asc ''b.mp3'')]) =
   Json 403 False (Some lit_forbidden) NoPayload"
  by (rule download_audio_other_owner) (simp add: sample_state_def sample_row_def)

theorem delete_history_item_other_owner_witness:
  "delete_history_item (sample_env (asc ''ab'') None None) (Some 1) 2
     (sample_state [sample_row 2 2 (asc ''b.mp3'')]) =
   (Json 404 False (Some lit_record_missing) NoPayload, sample_state [sample_row 2 2 (asc ''b.mp3'')])"
  by (rule delete_history_item_other_owner) (simp add: sample_state_def sample_row_def)

theorem history_clear_keeps_files_witness:
  "history (sample_env (asc ''ab'') None None) (Some 1) DELETE (sample_state [sample_row 1 1 (asc ''a.mp3'')]) =
   (Json 200 True (Some lit_cleared) NoPayload,
    (sample_state [sample_row 1 1 (asc ''a.mp3'')])\<lparr>hist := []\<rparr>)"
  using history_clear_keeps_files [of "sample_env (asc ''ab'') None None" 1
      "sample_state [sample_row 1 1 (asc ''a.mp3'')]"]
  by (simp add: sample_env_def sample_state_def sample_row_def)

theorem generate_run_commit_failure_keeps_file_witness:
  "fst (generate_run sample_client (sample_env (asc ''ab'') (Some (asc ''db'')) None) 1 (asc ''hi'') 0 5 5 5
        (sample_state [])) = Json 500 False (Some (lit_gen_failed @ asc ''db'')) NoPayload \<and>
   hist (snd (generate_run sample_client (sample_env (asc ''ab'') (Some (asc ''db'')) None) 1 (asc ''hi'')
        0 5 5 5 (sample_state []))) = [] \<and>
   files (snd (generate_run sample_client (sample_env (asc ''ab'') (Some (asc ''db'')) None) 1 (asc ''hi'')
        0 5 5 5 (sample_state []))) (path_join upload_folder (asc ''ab'' @ asc ''.mp3'')) \<noteq> None"
proof -
  have "fst (text_to_speech (sample_env (asc ''ab'') (Some (asc ''db'')) None) sample_client (asc ''hi'')
              (path_join upload_folder (token (sample_env (asc ''ab'') (Some (asc ''db'')) None) @ asc ''.mp3''))
              ''zh'' (Some (gen_options 0 5 5 5)) (asc ''user_'' @ show_int (int 1)) (sample_state [])) =
          Inr (True, path_join upload_folder (asc ''ab'' @ asc ''.mp3''))"
    by (simp add: tts_unfold sample_defs asc_def)
  from generate_run_commit_failure_keeps_file [OF _ this, of "asc ''db''"]
  show ?thesis by (simp add: sample_defs)
qed

theorem delete_history_item_commit_failure_witness:
  "delete_history_item (sample_env (asc ''ab'') (Some (asc ''db'')) None) (Some 1) 1
     (sample_state [sample_row 1 1 (asc ''a.mp3'')]) =
   (Json 500 False (Some (lit_delete_failed @ asc ''db'')) NoPayload,
    (sample_state [sample_row 1 1 (asc ''a.mp3'')])
      \<lparr>files := (files (sample_state [sample_row 1 1 (asc ''a.mp3'')]))
                   (path_join upload_folder (asc ''a.mp3'') := None)\<rparr>)"
proof -
  have "find_by_id (hist (sample_state [sample_row 1 1 (asc ''a.mp3'')])) 1 1 = Some (sample_row 1 1 (asc ''a.mp3''))"
    by (simp add: sample_state_def sample_row_def find_by_id_def)
  from delete_history_item_commit_failure [OF this, of "sample_env (asc ''ab'') (Some (asc ''db'')) None" "asc ''db''"]
  show ?thesis by (simp add: sample_env_def sample_row_def)
qed

end
