(* ===== verification/Auth.thy ===== *)
theory Auth
  imports App
begin

text \<open>
  Accounts and sessions of app.py: the \<open>User\<close> model (lines 35--47), the
  \<open>index\<close>, \<open>login\<close>, \<open>register\<close>, \<open>home\<close>, \<open>logout\<close> and \<open>user_info\<close>
  routes (lines 86--224).  The users table is a list of rows in rowid order.  The
  session is Flask's signed cookie of one client, a record of its two keys; each
  handler takes the session of the request and returns the session the response
  sets.  The salted hash of werkzeug is modelled by its contract (spec-modelled):
  \<open>check_password_hash (generate_password_hash salt p) q\<close> holds exactly when
  \<open>p = q\<close>.  A request body is what \<open>request.get_json()\<close> returns: \<open>None\<close>, a
  JSON object with string values, or another JSON value (an array or a scalar),
  with its truth value.
\<close>

section \<open>String literals of the account routes\<close>

text \<open>Line 106: malformed request body.\<close>

definition lit_bad_json :: ustr where
  [literal_defs]: "lit_bad_json = [0x8BF7, 0x6C42, 0x6570, 0x636E, 0x683C, 0x5F0F, 0x9519, 0x8BEF]"

text \<open>Line 112: empty user name or password.\<close>

definition lit_login_empty :: ustr where
  [literal_defs]: "lit_login_empty = [0x7528, 0x6237, 0x540D, 0x548C, 0x5BC6, 0x7801, 0x4E0D, 0x80FD, 0x4E3A, 0x7A7A]"

text \<open>Line 124: logged in.\<close>

definition lit_login_ok :: ustr where
  [literal_defs]: "lit_login_ok = [0x767B, 0x5F55, 0x6210, 0x529F]"

text \<open>Line 128: wrong user name or password.\<close>

definition lit_login_wrong :: ustr where
  [literal_defs]: "lit_login_wrong = [0x7528, 0x6237, 0x540D, 0x6216, 0x5BC6, 0x7801, 0x9519, 0x8BEF]"

text \<open>Line 130: prefix of the login failure.\<close>

definition lit_login_failed :: ustr where
  [literal_defs]: "lit_login_failed = [0x767B, 0x5F55, 0x5931, 0x8D25] @ asc '': ''"

text \<open>Line 150: a field is empty.\<close>

definition lit_fields_empty :: ustr where
  [literal_defs]: "lit_fields_empty = [0x6240, 0x6709, 0x5B57, 0x6BB5, 0x90FD, 0x4E0D, 0x80FD, 0x4E3A, 0x7A7A]"

text \<open>Line 153: user name length.\<close>

definition lit_username_length :: ustr where
  [literal_defs]: "lit_username_length = [0x7528, 0x6237, 0x540D, 0x957F, 0x5EA6, 0x5E94, 0x5728] @ asc ''3-20'' @ [0x4E2A, 0x5B57, 0x7B26, 0x4E4B, 0x95F4]"

text \<open>Line 156: the passwords differ.\<close>

definition lit_password_mismatch :: ustr where
  [literal_defs]: "lit_password_mismatch = [0x4E24, 0x6B21, 0x8F93, 0x5165, 0x7684, 0x5BC6, 0x7801, 0x4E0D, 0x4E00, 0x81F4]"

text \<open>Line 159: password too short.\<close>

definition lit_password_short :: ustr where
  [literal_defs]: "lit_password_short = [0x5BC6, 0x7801, 0x957F, 0x5EA6, 0x81F3, 0x5C11, 0x4E3A] @ asc ''6'' @ [0x4E2A, 0x5B57, 0x7B26]"

text \<open>Line 163: user name taken.\<close>

definition lit_username_taken :: ustr where
  [literal_defs]: "lit_username_taken = [0x7528, 0x6237, 0x540D, 0x5DF2, 0x5B58, 0x5728]"

text \<open>Line 166: e-mail taken.\<close>

definition lit_email_taken :: ustr where
  [literal_defs]: "lit_email_taken = [0x90AE, 0x7BB1, 0x5DF2, 0x88AB, 0x6CE8, 0x518C]"

text \<open>Line 184: registered.\<close>

definition lit_register_ok :: ustr where
  [literal_defs]: "lit_register_ok = [0x6CE8, 0x518C, 0x6210, 0x529F]"

text \<open>Line 189: prefix of the registration failure.\<close>

definition lit_register_failed :: ustr where
  [literal_defs]: "lit_register_failed = [0x6CE8, 0x518C, 0x5931, 0x8D25] @ asc '': ''"

text \<open>Line 224: no such user.\<close>

definition lit_no_such_user :: ustr where
  [literal_defs]: "lit_no_such_user = [0x7528, 0x6237, 0x4E0D, 0x5B58, 0x5728]"

section \<open>Users, password hashes and sessions\<close>

text \<open>werkzeug's salted password hash, by its contract.\<close>

datatype pw_hash = PwHash ustr ustr

definition generate_password_hash :: "ustr \<Rightarrow> ustr \<Rightarrow> pw_hash" where
  "generate_password_hash salt password = PwHash salt password"

definition check_password_hash :: "pw_hash \<Rightarrow> ustr \<Rightarrow> bool" where
  "check_password_hash h password = (case h of PwHash salt p \<Rightarrow> p = password)"

text \<open>Lines 36--41: the \<open>User\<close> model.\<close>

record user =
  usr_id :: nat
  usr_username :: ustr
  usr_email :: ustr
  usr_password_hash :: pw_hash
  usr_created_at :: nat

type_synonym user_table = "user list"

text \<open>The rowid SQLite gives a new user: the largest id plus one.\<close>

definition next_user_id :: "user_table \<Rightarrow> nat" where
  "next_user_id users = Suc (fold max (map usr_id users) 0)"

record session =
  sess_user_id :: "nat option"
  sess_username :: "ustr option"

definition empty_session :: session where
  "empty_session = \<lparr>sess_user_id = None, sess_username = None\<rparr>"

section \<open>Request bodies\<close>

datatype jbody = JObject "(string \<times> ustr) list" | JOther bool

text \<open>\<open>data.get(key, default)\<close>; a later duplicate key of a JSON object wins.\<close>

definition json_get :: "(string \<times> ustr) list \<Rightarrow> string \<Rightarrow> ustr \<Rightarrow> ustr" where
  "json_get d key dflt = py_get (map_of (rev d) key) dflt"

text \<open>\<open>not data\<close>.\<close>

definition json_falsy :: "jbody option \<Rightarrow> bool" where
  "json_falsy data =
     (case data of None \<Rightarrow> True | Some (JObject d) \<Rightarrow> d = [] | Some (JOther b) \<Rightarrow> \<not> b)"

section \<open>Routes\<close>

text \<open>Lines 86--91.\<close>

definition index :: "session \<Rightarrow> response" where
  "index sess =
     (if sess_user_id sess \<noteq> None then Redirect (asc ''/home'') else Redirect (asc ''/login''))"

text \<open>
  Lines 115--117: \<open>User.query.filter((User.username == x) | (User.email == x)).first()\<close>.
  Both columns are \<open>UNIQUE\<close> and so indexed; SQLite answers the disjunction with its
  multi-index OR plan, the rows of the first term (through the user-name index) before
  those of the second (through the e-mail index), and \<open>.first()\<close> takes the first:
  the user with that name if there is one, otherwise the user with that e-mail.
\<close>

definition find_login_user :: "user_table \<Rightarrow> ustr \<Rightarrow> user option" where
  "find_login_user users x =
     (case find (\<lambda>u. usr_username u = x) users of
        Some u \<Rightarrow> Some u
      | None \<Rightarrow> find (\<lambda>u. usr_email u = x) users)"

text \<open>
  Lines 94--130.  Everything after the \<open>GET\<close> branch is inside the \<open>try\<close>: a body
  that is not a JSON object makes \<open>data.get\<close> raise, which is answered 500.
\<close>

definition login ::
  "http_method \<Rightarrow> jbody option \<Rightarrow> session \<Rightarrow> user_table \<Rightarrow> response \<times> session" where
  "login method data sess users =
     (case method of
        GET \<Rightarrow> (if sess_user_id sess \<noteq> None then Redirect (asc ''/home'')
                else Template (asc ''login.html'') None, sess)
      | POST \<Rightarrow>
          (if json_falsy data then (Json 400 False (Some lit_bad_json) NoPayload, sess)
           else case data of
             Some (JObject d) \<Rightarrow>
               let username = py_strip (json_get d ''username'' []);
                   password = json_get d ''password'' []
               in if username = [] \<or> password = []
                  then (Json 400 False (Some lit_login_empty) NoPayload, sess)
                  else (case find_login_user users username of
                          Some u \<Rightarrow>
                            if check_password_hash (usr_password_hash u) password
                            then (Json 200 True (Some lit_login_ok) (UserName (usr_username u)),
                                  sess\<lparr>sess_user_id := Some (usr_id u),
                                       sess_username := Some (usr_username u)\<rparr>)
                            else (Json 401 False (Some lit_login_wrong) NoPayload, sess)
                        | None \<Rightarrow> (Json 401 False (Some lit_login_wrong) NoPayload, sess))
           | _ \<Rightarrow> (Json 500 False (Some (lit_login_failed @ exc_text AttributeError)) NoPayload, sess))
      | DELETE \<Rightarrow> (MethodNotAllowed, sess))"

text \<open>
  Lines 133--189.  The validation is outside the \<open>try\<close>: a body that is not a JSON
  object makes \<open>data.get\<close> raise uncaught.  The new row gets the next rowid and
  the clock; a failing commit is rolled back and answered 500.
\<close>

definition register ::
  "'x app_env_scheme \<Rightarrow> http_method \<Rightarrow> jbody option \<Rightarrow> session \<Rightarrow> user_table \<Rightarrow>
   response \<times> session \<times> user_table" where
  "register e method data sess users =
     (case method of
        GET \<Rightarrow> (if sess_user_id sess \<noteq> None then Redirect (asc ''/home'')
                else Template (asc ''register.html'') None, sess, users)
      | POST \<Rightarrow>
          (case data of
             Some (JObject d) \<Rightarrow>
               let username = py_strip (json_get d ''username'' []);
                   email = py_strip (json_get d ''email'' []);
                   password = json_get d ''password'' [];
                   confirm_password = json_get d ''confirm_password'' []
               in if username = [] \<or> email = [] \<or> password = []
                  then (Json 400 False (Some lit_fields_empty) NoPayload, sess, users)
                  else if length username < 3 \<or> 20 < length username
                  then (Json 400 False (Some lit_username_length) NoPayload, sess, users)
                  else if password \<noteq> confirm_password
                  then (Json 400 False (Some lit_password_mismatch) NoPayload, sess, users)
                  else if length password < 6
                  then (Json 400 False (Some lit_password_short) NoPayload, sess, users)
                  else if find (\<lambda>u. usr_username u = username) users \<noteq> None
                  then (Json 400 False (Some lit_username_taken) NoPayload, sess, users)
                  else if find (\<lambda>u. usr_email u = email) users \<noteq> None
                  then (Json 400 False (Some lit_email_taken) NoPayload, sess, users)
                  else (case commit_err e of
                          None \<Rightarrow>
                            let new_user = \<lparr>usr_id = next_user_id users, usr_username = username,
                                            usr_email = email,
                                            usr_password_hash = generate_password_hash (pw_salt e) password,
                                            usr_created_at = now e\<rparr>
                            in (Json 200 True (Some lit_register_ok) (UserName username),
                                sess\<lparr>sess_user_id := Some (usr_id new_user),
                                     sess_username := Some username\<rparr>,
                                users @ [new_user])
                        | Some m \<Rightarrow>
                            (Json 500 False (Some (lit_register_failed @ m)) NoPayload, sess, users))
           | _ \<Rightarrow> (InternalError, sess, users))
      | DELETE \<Rightarrow> (MethodNotAllowed, sess, users))"

text \<open>Lines 192--197.\<close>

definition home :: "session \<Rightarrow> response" where
  "home sess =
     (if sess_user_id sess = None then Redirect (asc ''/login'')
      else Template (asc ''home.html'') (sess_username sess))"

text \<open>Lines 200--204: \<open>session.clear()\<close>.\<close>

definition logout :: "session \<Rightarrow> response \<times> session" where
  "logout sess = (Redirect (asc ''/login''), empty_session)"

text \<open>Lines 207--224: \<open>User.query.get\<close> looks the row up by primary key.\<close>

definition user_info :: "session \<Rightarrow> user_table \<Rightarrow> response" where
  "user_info sess users =
     (case sess_user_id sess of
        None \<Rightarrow> Json 401 False (Some lit_not_logged_in) NoPayload
      | Some uid \<Rightarrow>
          (case find (\<lambda>u. usr_id u = uid) users of
             Some u \<Rightarrow> Json 200 True None
                         (UserInfo (usr_id u) (usr_username u) (usr_email u) (usr_created_at u))
           | None \<Rightarrow> Json 404 False (Some lit_no_such_user) NoPayload))"

section \<open>The invariant of the users table\<close>

text \<open>
  What registration guarantees of every row: distinct ids, user names and e-mail
  addresses (the \<open>unique\<close> columns of lines 37--39), a stripped user name of 3 to
  20 characters, a stripped non-empty e-mail, and the hash of a password of at least
  six characters.
\<close>

definition users_ok :: "user_table \<Rightarrow> bool" where
  "users_ok users \<longleftrightarrow>
     distinct (map usr_id users) \<and> distinct (map usr_username users) \<and>
     distinct (map usr_email users) \<and>
     (\<forall>u\<in>set users.
        3 \<le> length (usr_username u) \<and> length (usr_username u) \<le> 20 \<and>
        py_strip (usr_username u) = usr_username u \<and>
        usr_email u \<noteq> [] \<and> py_strip (usr_email u) = usr_email u \<and>
        (case usr_password_hash u of PwHash s p \<Rightarrow> 6 \<le> length p))"

section \<open>Sample inputs\<close>

text \<open>
  An environment in which every commit succeeds, a user row, and the bodies of a
  registration and of a login request.
\<close>

definition sample_auth_env :: app_env where
  "sample_auth_env =
     \<lparr>synth = (\<lambda>i req. Audio [73]), disk = (\<lambda>p b. WriteOk), token = asc ''ab'', now = 0,
      commit_err = None, remove_err = None, pw_salt = asc ''s''\<rparr>"

definition sample_user :: "nat \<Rightarrow> string \<Rightarrow> string \<Rightarrow> string \<Rightarrow> user" where
  "sample_user i name email password =
     \<lparr>usr_id = i, usr_username = asc name, usr_email = asc email,
      usr_password_hash = generate_password_hash (asc ''s'') (asc password), usr_created_at = 0\<rparr>"

definition reg_body :: "string \<Rightarrow> string \<Rightarrow> string \<Rightarrow> jbody" where
  "reg_body name email password =
     JObject [(''username'', asc name), (''email'', asc email), (''password'', asc password),
              (''confirm_password'', asc password)]"

definition login_body :: "string \<Rightarrow> string \<Rightarrow> jbody" where
  "login_body name password = JObject [(''username'', asc name), (''password'', asc password)]"

lemmas auth_sample_defs = sample_auth_env_def sample_user_def reg_body_def login_body_def
  json_get_def py_get_def json_falsy_def

section \<open>Lemmas on the account routes\<close>

lemma login_json_ok: "json_ok (fst (login m data sess users))"
  by (simp add: login_def Let_def split: http_method.split option.split jbody.split if_split)

lemma register_json_ok: "json_ok (fst (register e m data sess users))"
  by (simp add: register_def Let_def split: http_method.split option.split jbody.split if_split)

lemma check_generate_password_hash [simp]:
  "check_password_hash (generate_password_hash s p) q \<longleftrightarrow> p = q"
  by (simp add: check_password_hash_def generate_password_hash_def)

lemma next_user_id_gt: "u \<in> set users \<Longrightarrow> usr_id u < next_user_id users"
  using fold_max_ge [of "usr_id u" "map usr_id users" 0] by (simp add: next_user_id_def)

lemma next_user_id_fresh: "next_user_id users \<notin> usr_id ` set users"
  using next_user_id_gt by fastforce

lemma register_disj:
  "snd (snd (register e m data sess users)) = users \<or>
   (\<exists>d. m = POST \<and> data = Some (JObject d) \<and> commit_err e = None \<and>
      py_strip (json_get d ''username'' []) \<noteq> [] \<and> py_strip (json_get d ''email'' []) \<noteq> [] \<and>
      3 \<le> length (py_strip (json_get d ''username'' [])) \<and>
      length (py_strip (json_get d ''username'' [])) \<le> 20 \<and>
      json_get d ''password'' [] = json_get d ''confirm_password'' [] \<and>
      6 \<le> length (json_get d ''password'' []) \<and>
      py_strip (json_get d ''username'' []) \<notin> usr_username ` set users \<and>
      py_strip (json_get d ''email'' []) \<notin> usr_email ` set users \<and>
      register e m data sess users =
        (Json 200 True (Some lit_register_ok) (UserName (py_strip (json_get d ''username'' []))),
         sess\<lparr>sess_user_id := Some (next_user_id users),
              sess_username := Some (py_strip (json_get d ''username'' []))\<rparr>,
         users @ [\<lparr>usr_id = next_user_id users, usr_username = py_strip (json_get d ''username'' []),
                   usr_email = py_strip (json_get d ''email'' []),
                   usr_password_hash = generate_password_hash (pw_salt e) (json_get d ''password'' []),
                   usr_created_at = now e\<rparr>]))"
  by (auto simp: register_def Let_def find_None_iff split: http_method.split option.split jbody.split)

lemma users_ok_snoc:
  assumes "users_ok users" and "usr_id u \<notin> usr_id ` set users"
    and "usr_username u \<notin> usr_username ` set users" and "usr_email u \<notin> usr_email ` set users"
    and "3 \<le> length (usr_username u)" "length (usr_username u) \<le> 20"
    and "py_strip (usr_username u) = usr_username u"
    and "usr_email u \<noteq> []" "py_strip (usr_email u) = usr_email u"
    and "case usr_password_hash u of PwHash s p \<Rightarrow> 6 \<le> length p"
  shows "users_ok (users @ [u])"
  using assms by (auto simp: users_ok_def)

lemma register_cases:
  fixes e :: "'x app_env_scheme"
  obtains (unchanged) "snd (snd (register e m data sess users)) = users"
  | (created) d where "m = POST" "data = Some (JObject d)" "commit_err e = None"
      "py_strip (json_get d ''username'' []) \<noteq> []" "py_strip (json_get d ''email'' []) \<noteq> []"
      "3 \<le> length (py_strip (json_get d ''username'' []))"
      "length (py_strip (json_get d ''username'' [])) \<le> 20"
      "json_get d ''password'' [] = json_get d ''confirm_password'' []"
      "6 \<le> length (json_get d ''password'' [])"
      "py_strip (json_get d ''username'' []) \<notin> usr_username ` set users"
      "py_strip (json_get d ''email'' []) \<notin> usr_email ` set users"
      "register e m data sess users =
        (Json 200 True (Some lit_register_ok) (UserName (py_strip (json_get d ''username'' []))),
         sess\<lparr>sess_user_id := Some (next_user_id users),
              sess_username := Some (py_strip (json_get d ''username'' []))\<rparr>,
         users @ [\<lparr>usr_id = next_user_id users, usr_username = py_strip (json_get d ''username'' []),
                   usr_email = py_strip (json_get d ''email'' []),
                   usr_password_hash = generate_password_hash (pw_salt e) (json_get d ''password'' []),
                   usr_created_at = now e\<rparr>])"
  using register_disj [of e m data sess users] by blast

lemma register_keeps_users_ok:
  "users_ok users \<Longrightarrow> users_ok (snd (snd (register e m data sess users)))"
proof (cases rule: register_cases [of e m data sess users])
  case unchanged
  moreover assume "users_ok users"
  ultimately show ?thesis by simp
next
  case (created d)
  assume "users_ok users"
  with created next_user_id_fresh show ?thesis
    unfolding created(12) snd_conv
    by (intro users_ok_snoc) (simp_all add: py_strip_idem generate_password_hash_def)
qed

text \<open>
  C14: registration keeps the users table well formed: ids, user names and e-mails
  stay distinct and every row satisfies the checks of lines 149--166.
\<close>

theorem register_users_ok:
  "users_ok users \<Longrightarrow> users_ok (snd (snd (register e m data sess users)))"
  by (rule register_keeps_users_ok)

text \<open>
  C11: a login succeeds only for a row whose user name or e-mail is the stripped
  identifier and whose hash checks the password; the session then holds that row's id
  and name.
\<close>

theorem login_sound:
  assumes "fst (login POST data sess users) = Json 200 True msg pl"
  shows "\<exists>d u. data = Some (JObject d) \<and> u \<in> set users \<and>
           (usr_username u = py_strip (json_get d ''username'' []) \<or>
            usr_email u = py_strip (json_get d ''username'' [])) \<and>
           check_password_hash (usr_password_hash u) (json_get d ''password'' []) \<and>
           login POST data sess users =
             (Json 200 True (Some lit_login_ok) (UserName (usr_username u)),
              sess\<lparr>sess_user_id := Some (usr_id u), sess_username := Some (usr_username u)\<rparr>)"
  using assms
  by (auto simp: login_def Let_def find_login_user_def json_falsy_def
           split: option.splits jbody.splits if_splits dest: find_SomeD)

lemma register_success:
  fixes e :: "'x app_env_scheme"
  assumes "fst (register e m data sess users) = Json 200 True msg pl"
  obtains d where "m = POST" "data = Some (JObject d)" "commit_err e = None"
      "6 \<le> length (json_get d ''password'' [])"
      "py_strip (json_get d ''username'' []) \<noteq> []"
      "py_strip (json_get d ''username'' []) \<notin> usr_username ` set users"
      "register e m data sess users =
        (Json 200 True (Some lit_register_ok) (UserName (py_strip (json_get d ''username'' []))),
         sess\<lparr>sess_user_id := Some (next_user_id users),
              sess_username := Some (py_strip (json_get d ''username'' []))\<rparr>,
         users @ [\<lparr>usr_id = next_user_id users, usr_username = py_strip (json_get d ''username'' []),
                   usr_email = py_strip (json_get d ''email'' []),
                   usr_password_hash = generate_password_hash (pw_salt e) (json_get d ''password'' []),
                   usr_created_at = now e\<rparr>])"
proof (cases rule: register_cases [of e m data sess users])
  case unchanged
  with assms show ?thesis
    by (auto simp: register_def Let_def split: http_method.splits option.splits jbody.splits if_splits)
next
  case (created d)
  show ?thesis by (rule that [OF created(1,2,3,9,4,10,12)])
qed

lemma find_login_user_append:
  "\<forall>u\<in>set users. usr_username u \<noteq> x \<and> usr_email u \<noteq> x \<Longrightarrow>
   find_login_user (users @ ys) x = find_login_user ys x"
proof -
  assume "\<forall>u\<in>set users. usr_username u \<noteq> x \<and> usr_email u \<noteq> x"
  then have "find (\<lambda>u. usr_username u = x) (users @ ys) = find (\<lambda>u. usr_username u = x) ys"
    and "find (\<lambda>u. usr_email u = x) (users @ ys) = find (\<lambda>u. usr_email u = x) ys"
    by (simp_all add: find_append_none)
  then show ?thesis by (simp add: find_login_user_def split: option.split)
qed

text \<open>
  C12: round trip: after a successful registration, logging in with the same user
  name and password succeeds and puts the new id into the session, provided no earlier
  user has that name as e-mail address.
\<close>

theorem register_then_login:
  assumes reg: "fst (register e POST (Some (JObject d)) sess users) = Json 200 True msg pl"
    and fresh: "py_strip (json_get d ''username'' []) \<notin> usr_email ` set users"
  shows "login POST (Some (JObject [(''username'', json_get d ''username'' []),
                                    (''password'', json_get d ''password'' [])]))
           sess' (snd (snd (register e POST (Some (JObject d)) sess users))) =
         (Json 200 True (Some lit_login_ok) (UserName (py_strip (json_get d ''username'' []))),
          sess'\<lparr>sess_user_id := Some (next_user_id users),
                sess_username := Some (py_strip (json_get d ''username'' []))\<rparr>)"
proof -
  obtain d' where d': "d' = d" "6 \<le> length (json_get d ''password'' [])"
      "py_strip (json_get d ''username'' []) \<noteq> []"
      "py_strip (json_get d ''username'' []) \<notin> usr_username ` set users"
      and eq: "register e POST (Some (JObject d)) sess users =
        (Json 200 True (Some lit_register_ok) (UserName (py_strip (json_get d ''username'' []))),
         sess\<lparr>sess_user_id := Some (next_user_id users),
              sess_username := Some (py_strip (json_get d ''username'' []))\<rparr>,
         users @ [\<lparr>usr_id = next_user_id users, usr_username = py_strip (json_get d ''username'' []),
                   usr_email = py_strip (json_get d ''email'' []),
                   usr_password_hash = generate_password_hash (pw_salt e) (json_get d ''password'' []),
                   usr_created_at = now e\<rparr>])"
    using reg by (cases rule: register_success) auto
  have "\<forall>u\<in>set users. usr_username u \<noteq> py_strip (json_get d ''username'' []) \<and>
                     usr_email u \<noteq> py_strip (json_get d ''username'' [])"
    using d' fresh by force
  then have "find_login_user (users @ [\<lparr>usr_id = next_user_id users,
                   usr_username = py_strip (json_get d ''username'' []),
                   usr_email = py_strip (json_get d ''email'' []),
                   usr_password_hash = generate_password_hash (pw_salt e) (json_get d ''password'' []),
                   usr_created_at = now e\<rparr>]) (py_strip (json_get d ''username'' [])) =
             Some \<lparr>usr_id = next_user_id users,
                   usr_username = py_strip (json_get d ''username'' []),
                   usr_email = py_strip (json_get d ''email'' []),
                   usr_password_hash = generate_password_hash (pw_salt e) (json_get d ''password'' []),
                   usr_created_at = now e\<rparr>"
    by (simp add: find_login_user_append) (simp add: find_login_user_def)
  moreover have "json_get [(''username'', json_get d ''username'' []),
                           (''password'', json_get d ''password'' [])] ''username'' [] =
                 json_get d ''username'' []"
    and "json_get [(''username'', json_get d ''username'' []),
                   (''password'', json_get d ''password'' [])] ''password'' [] =
         json_get d ''password'' []"
    by (simp_all add: json_get_def py_get_def)
  moreover have "json_get d ''password'' [] \<noteq> []" using d'(2) by auto
  ultimately show ?thesis
    unfolding eq snd_conv
    using d'(3) by (simp add: login_def Let_def json_falsy_def py_strip_idem)
qed

lemma users_ok_find_username:
  "users_ok users \<Longrightarrow> v \<in> set users \<Longrightarrow> find (\<lambda>u. usr_username u = usr_username v) users = Some v"
  by (induction users) (auto simp: users_ok_def)

text \<open>
  C13: an identifier that is one user's e-mail and another user's name names the
  latter: a login with it either changes nothing or logs in the user with that name,
  so the user whose e-mail it is can never log in with the e-mail.
\<close>

theorem login_email_shadowed:
  assumes ok: "users_ok users" and v: "v \<in> set users" and eq: "usr_username v = usr_email u"
    and x: "py_strip (json_get d ''username'' []) = usr_email u"
  shows "snd (login POST (Some (JObject d)) sess users) = sess \<or>
         sess_user_id (snd (login POST (Some (JObject d)) sess users)) = Some (usr_id v)"
proof -
  have "find_login_user users (usr_email u) = Some v"
    using users_ok_find_username [OF ok v] eq by (simp add: find_login_user_def)
  then show ?thesis
    using x by (auto simp: login_def Let_def json_falsy_def)
qed

theorem login_email_shadowed_witness:
  "snd (login POST (Some (login_body ''bob'' ''secret1'')) empty_session
     [sample_user 1 ''alice'' ''bob'' ''secret1'', sample_user 2 ''bob'' ''b@x'' ''secret2'']) =
   empty_session"
proof -
  have ok: "users_ok [sample_user 1 ''alice'' ''bob'' ''secret1'', sample_user 2 ''bob'' ''b@x'' ''secret2'']"
    by (simp add: users_ok_def sample_user_def asc_def py_strip_def py_isspace_def
                  generate_password_hash_def)
  have "snd (login POST (Some (login_body ''bob'' ''secret1'')) empty_session
          [sample_user 1 ''alice'' ''bob'' ''secret1'', sample_user 2 ''bob'' ''b@x'' ''secret2'']) = empty_session \<or>
        sess_user_id (snd (login POST (Some (login_body ''bob'' ''secret1'')) empty_session
          [sample_user 1 ''alice'' ''bob'' ''secret1'', sample_user 2 ''bob'' ''b@x'' ''secret2''])) = Some 2"
    using login_email_shadowed [OF ok, of "sample_user 2 ''bob'' ''b@x'' ''secret2''"
        "sample_user 1 ''alice'' ''bob'' ''secret1''" "[(''username'', asc ''bob''), (''password'', asc ''secret1'')]"
        empty_session]
    by (simp add: login_body_def sample_user_def json_get_def py_get_def asc_def py_strip_def py_isspace_def)
  moreover have "sess_user_id (snd (login POST (Some (login_body ''bob'' ''secret1'')) empty_session
          [sample_user 1 ''alice'' ''bob'' ''secret1'', sample_user 2 ''bob'' ''b@x'' ''secret2''])) \<noteq> Some 2"
    by (simp add: login_def Let_def find_login_user_def auth_sample_defs asc_def py_strip_def
                  py_isspace_def generate_password_hash_def check_password_hash_def empty_session_def)
  ultimately show ?thesis by blast
qed

theorem register_users_ok_witness:
  "users_ok (snd (snd (register sample_auth_env POST (Some (reg_body ''bob'' ''b@x'' ''secret2''))
               empty_session [sample_user 1 ''alice'' ''al@x'' ''secret1''])))"
  using register_users_ok [of "[sample_user 1 ''alice'' ''al@x'' ''secret1'']" sample_auth_env POST
      "Some (reg_body ''bob'' ''b@x'' ''secret2'')" empty_session]
  by (simp add: users_ok_def sample_user_def asc_def py_strip_def py_isspace_def
                generate_password_hash_def)

theorem login_sound_witness:
  "\<exists>u\<in>set [sample_user 1 ''alice'' ''al@x'' ''secret1''].
     check_password_hash (usr_password_hash u) (asc ''secret1'')"
proof -
  have "fst (login POST (Some (login_body ''alice'' ''secret1'')) empty_session
              [sample_user 1 ''alice'' ''al@x'' ''secret1'']) =
        Json 200 True (Some lit_login_ok) (UserName (asc ''alice''))"
    by (simp add: login_def Let_def find_login_user_def auth_sample_defs asc_def py_strip_def
                  py_isspace_def)
  from login_sound [OF this] show ?thesis
    by (auto simp: login_body_def json_get_def py_get_def asc_def)
qed

theorem register_then_login_witness:
  "login POST (Some (JObject [(''username'', asc '' bob ''), (''password'', asc ''secret2'')]))
     empty_session (snd (snd (register sample_auth_env POST
       (Some (JObject [(''username'', asc '' bob ''), (''email'', asc ''b@x''),
                       (''password'', asc ''secret2''), (''confirm_password'', asc ''secret2'')]))
       empty_session [sample_user 1 ''alice'' ''al@x'' ''secret1'']))) =
   (Json 200 True (Some lit_login_ok) (UserName (asc ''bob'')),
    empty_session\<lparr>sess_user_id := Some 2, sess_username := Some (asc ''bob'')\<rparr>)"
proof -
  let ?d = "[(''username'', asc '' bob ''), (''email'', asc ''b@x''),
             (''password'', asc ''secret2''), (''confirm_password'', asc ''secret2'')]"
  have reg: "fst (register sample_auth_env POST (Some (JObject ?d)) empty_session
                [sample_user 1 ''alice'' ''al@x'' ''secret1'']) =
             Json 200 True (Some lit_register_ok) (UserName (asc ''bob''))"
    by (simp add: register_def Let_def auth_sample_defs asc_def py_strip_def py_isspace_def)
  have fresh: "py_strip (json_get ?d ''username'' []) \<notin>
                 usr_email ` set [sample_user 1 ''alice'' ''al@x'' ''secret1'']"
    by (simp add: auth_sample_defs asc_def py_strip_def py_isspace_def)
  from register_then_login [OF reg fresh, of empty_session] show ?thesis
    by (simp add: json_get_def py_get_def asc_def py_strip_def py_isspace_def sample_user_def
                  next_user_id_def)
qed

end
