(* ===== verification/Runs.thy ===== *)
theory Runs
  imports App
begin

text \<open>
  Runs of the audio endpoints: \<open>served\<close> is every state that a sequence of handled
  requests reaches from the empty start, in any environment; \<open>served_ok\<close> the runs
  whose tokens are fresh and whose deletions commit.  \<open>consistent\<close> is the
  file/record invariant of spec section 3.  The theory proves it for the well-behaved
  runs, and the isolation of users for all runs.
\<close>

section \<open>Runs of the server\<close>

text \<open>
  The server starts with no files, no requests and an empty table; a run applies
  \<open>handle\<close> to any request in any environment.
\<close>

definition server_start :: app_state where
  "server_start = \<lparr>files = Map.empty, sent = [], slept = [], printed = [], hist = []\<rparr>"

inductive served :: "baidu_tts option \<Rightarrow> app_state \<Rightarrow> bool" for client where
  start: "served client server_start"
| step: "served client s \<Longrightarrow> served client (snd (handle client (e :: app_env) rq s))"

text \<open>
  Spec section 3: every row has a distinct id and filename and its file exists
  under \<open>uploads/\<close>.
\<close>

definition consistent :: "app_state \<Rightarrow> bool" where
  "consistent s \<longleftrightarrow>
     distinct (map ah_id (hist s)) \<and> distinct (map ah_filename (hist s)) \<and>
     (\<forall>h\<in>set (hist s). files s (path_join upload_folder (ah_filename h)) \<noteq> None)"

definition request_user :: "request \<Rightarrow> nat option" where
  "request_user rq =
     (case rq of
        GenerateAudio uid _ \<Rightarrow> uid
      | DownloadAudio uid _ \<Rightarrow> uid
      | History uid _ \<Rightarrow> uid
      | DeleteHistoryItem uid _ \<Rightarrow> uid)"

text \<open>
  A step is well behaved when its token names no recorded file and, for a
  deletion, the commit succeeds.
\<close>

definition well_behaved :: "app_env \<Rightarrow> request \<Rightarrow> app_state \<Rightarrow> bool" where
  "well_behaved e rq s \<longleftrightarrow>
     token e @ asc ''.mp3'' \<notin> ah_filename ` set (hist s) \<and>
     (case rq of DeleteHistoryItem _ _ \<Rightarrow> commit_err e = None | _ \<Rightarrow> True)"

inductive served_ok :: "baidu_tts option \<Rightarrow> app_state \<Rightarrow> bool" for client where
  start: "served_ok client server_start"
| step: "served_ok client s \<Longrightarrow> well_behaved e rq s \<Longrightarrow>
         served_ok client (snd (handle client e rq s))"

section \<open>Lemmas on the handlers' effect on the invariant\<close>

lemma path_join_upload_inj:
  assumes "path_join upload_folder a = path_join upload_folder b"
  shows "a = b"
proof -
  have hd: "take 1 (upload_folder @ [47] @ x) = [117]" for x
    by (simp add: upload_folder_def asc_def)
  show ?thesis
    using assms hd [of a] hd [of b]
    by (auto simp: path_join_def split: if_splits)
qed


lemma generate_run_effect:
  "hist (snd (generate_run tts e u t v sp pi vo s)) = hist s \<or>
   (hist (snd (generate_run tts e u t v sp pi vo s)) =
      add_history (hist s) u t (token e @ asc ''.mp3'') v (voice_label v) sp pi vo (now e) \<and>
    files (snd (generate_run tts e u t v sp pi vo s)) (path_join upload_folder (token e @ asc ''.mp3'')) \<noteq> None)"
proof -
  let ?p = "path_join upload_folder (token e @ asc ''.mp3'')"
  let ?cuid = "asc ''user_'' @ show_int (int u)"
  obtain r1 s1 where R: "text_to_speech e tts t ?p ''zh'' (Some (gen_options v sp pi vo)) ?cuid s = (r1, s1)"
    by fastforce
  have h: "hist s1 = hist s"
    using text_to_speech_hist [of e tts t ?p "''zh''" "Some (gen_options v sp pi vo)" ?cuid s] R by simp
  show ?thesis
  proof (cases "\<exists>x. r1 = Inr (True, x)")
    case True
    then obtain x where x: "r1 = Inr (True, x)" by blast
    with R have "fst (text_to_speech e tts t ?p ''zh'' (Some (gen_options v sp pi vo)) ?cuid s) = Inr (True, x)"
      by simp
    from text_to_speech_success_facts [OF this] R have "files s1 ?p \<noteq> None" by auto
    then show ?thesis using R x h by (simp add: generate_run_def Let_def split: option.split)
  next
    case False
    then show ?thesis using R h
      by (auto simp: generate_run_def Let_def split: sum.splits bool.splits option.splits)
  qed
qed

lemma generate_run_files_mono:
  "files s q \<noteq> None \<Longrightarrow> files (snd (generate_run tts e u t v sp pi vo s)) q \<noteq> None"
proof -
  assume q: "files s q \<noteq> None"
  let ?p = "path_join upload_folder (token e @ asc ''.mp3'')"
  let ?cuid = "asc ''user_'' @ show_int (int u)"
  obtain r1 s1 where R: "text_to_speech e tts t ?p ''zh'' (Some (gen_options v sp pi vo)) ?cuid s = (r1, s1)"
    by fastforce
  have "files s1 q \<noteq> None"
    using text_to_speech_files_exist [OF q, of e tts t ?p "''zh''" "Some (gen_options v sp pi vo)" ?cuid] R
    by simp
  then show ?thesis using R
    by (auto simp: generate_run_def Let_def split: sum.splits bool.splits option.splits)
qed

lemma generate_audio_cases:
  "snd (generate_audio client e uid data s) = s \<or>
   (\<exists>u tts t v sp pi vo. uid = Some u \<and>
      snd (generate_audio client e uid data s) = snd (generate_run tts e u t v sp pi vo s))"
  by (auto simp: generate_audio_def Let_def split: option.splits if_splits) blast

lemma history_cases:
  "snd (history e uid m s) = s \<or> (\<exists>u. uid = Some u \<and> snd (history e uid m s) = s\<lparr>hist := delete_by_user (hist s) u\<rparr>)"
  by (auto simp: history_def split: option.splits http_method.splits)

lemma delete_history_item_hist:
  "hist (snd (delete_history_item e uid hid s)) = hist s \<or>
   (\<exists>u a. uid = Some u \<and> find_by_id (hist s) hid u = Some a \<and>
          hist (snd (delete_history_item e uid hid s)) = delete_row (hist s) a)"
  by (auto simp: delete_history_item_def Let_def path_exists_def remove_file_def
           split: option.splits if_splits prod.splits)

lemma delete_history_item_committed:
  "commit_err e = None \<Longrightarrow>
   snd (delete_history_item e uid hid s) = s \<or>
   (\<exists>u a. uid = Some u \<and> find_by_id (hist s) hid u = Some a \<and>
          hist (snd (delete_history_item e uid hid s)) = delete_row (hist s) a \<and>
          (\<forall>q. q \<noteq> path_join upload_folder (ah_filename a) \<longrightarrow>
               files (snd (delete_history_item e uid hid s)) q = files s q))"
  by (auto simp: delete_history_item_def Let_def path_exists_def remove_file_def
           split: option.splits if_splits prod.splits)

lemma consistent_generate_run:
  assumes "consistent s" and "token e @ asc ''.mp3'' \<notin> ah_filename ` set (hist s)"
  shows "consistent (snd (generate_run tts e u t v sp pi vo s))"
proof -
  let ?s' = "snd (generate_run tts e u t v sp pi vo s)"
  have mono: "\<And>q. files s q \<noteq> None \<Longrightarrow> files ?s' q \<noteq> None"
    by (rule generate_run_files_mono)
  from generate_run_effect [of tts e u t v sp pi vo s]
  consider (same) "hist ?s' = hist s"
    | (add) "hist ?s' = add_history (hist s) u t (token e @ asc ''.mp3'') v (voice_label v) sp pi vo (now e)"
        "files ?s' (path_join upload_folder (token e @ asc ''.mp3'')) \<noteq> None"
    by blast
  then show ?thesis
  proof cases
    case same
    then show ?thesis using assms(1) mono by (auto simp: consistent_def)
  next
    case add
    then show ?thesis
      using assms mono by (auto simp: consistent_def add_history_def next_rowid_fresh)
  qed
qed

lemma consistent_generate_audio:
  "consistent s \<Longrightarrow> token e @ asc ''.mp3'' \<notin> ah_filename ` set (hist s) \<Longrightarrow>
   consistent (snd (generate_audio client e uid data s))"
  using generate_audio_cases [of client e uid data s] consistent_generate_run by metis

lemma consistent_history: "consistent s \<Longrightarrow> consistent (snd (history e uid m s))"
  using history_cases [of e uid m s]
  by (auto simp: consistent_def delete_by_user_def distinct_map_filter)

lemma consistent_delete_history_item:
  assumes c: "consistent s" and commit: "commit_err e = None"
  shows "consistent (snd (delete_history_item e uid hid s))"
proof -
  let ?s' = "snd (delete_history_item e uid hid s)"
  from delete_history_item_committed [OF commit, of uid hid s]
  show ?thesis
  proof (elim disjE exE conjE)
    assume "?s' = s"
    with c show ?thesis by simp
  next
    fix u a
    assume a: "find_by_id (hist s) hid u = Some a"
      and h': "hist ?s' = delete_row (hist s) a"
      and f': "\<forall>q. q \<noteq> path_join upload_folder (ah_filename a) \<longrightarrow> files ?s' q = files s q"
    from a have a_in: "a \<in> set (hist s)" by (simp add: find_by_id_Some)
    have "files ?s' (path_join upload_folder (ah_filename h)) \<noteq> None"
      if h: "h \<in> set (hist ?s')" for h
    proof -
      from h h' have h_in: "h \<in> set (hist s)" and "ah_id h \<noteq> ah_id a"
        by (auto simp: delete_row_def)
      then have "h \<noteq> a" by auto
      with c h_in a_in have "ah_filename h \<noteq> ah_filename a"
        by (auto simp: consistent_def distinct_map inj_on_def)
      then have "path_join upload_folder (ah_filename h) \<noteq> path_join upload_folder (ah_filename a)"
        using path_join_upload_inj by blast
      with f' c h_in show ?thesis by (auto simp: consistent_def)
    qed
    with c h' show ?thesis
      by (auto simp: consistent_def delete_row_def distinct_map_filter)
  qed
qed

text \<open>
  C6: in every run whose tokens are fresh and whose deletions commit, the table and
  the upload folder are consistent: ids and filenames are distinct and every
  recorded file exists.
\<close>

theorem reachable_ok_consistent: "served_ok client s \<Longrightarrow> consistent s"
proof (induction rule: served_ok.induct)
  case start
  show ?case by (simp add: consistent_def server_start_def)
next
  case (step s e rq)
  show ?case
  proof (cases rq)
    case (GenerateAudio uid data)
    with step show ?thesis by (simp add: handle_def well_behaved_def consistent_generate_audio)
  next
    case (DownloadAudio uid fn)
    with step show ?thesis by (simp add: handle_def)
  next
    case (History uid m)
    with step show ?thesis by (simp add: handle_def consistent_history)
  next
    case (DeleteHistoryItem uid hid)
    with step show ?thesis by (simp add: handle_def well_behaved_def consistent_delete_history_item)
  qed
qed

section \<open>Properties of every run\<close>

lemma handle_hist_disj:
  "hist (snd (handle client e rq s)) = hist s \<or>
   (\<exists>u. request_user rq = Some u \<and>
      ((\<exists>t v sp pi vo. hist (snd (handle client e rq s)) =
           add_history (hist s) u t (token e @ asc ''.mp3'') v (voice_label v) sp pi vo (now e)) \<or>
       hist (snd (handle client e rq s)) = delete_by_user (hist s) u \<or>
       (\<exists>a. a \<in> set (hist s) \<and> ah_user_id a = u \<and> hist (snd (handle client e rq s)) = delete_row (hist s) a)))"
  (is "?same \<or> ?changed")
proof (cases rq)
  case (GenerateAudio uid data)
  then have eq: "snd (handle client e rq s) = snd (generate_audio client e uid data s)"
    by (simp add: handle_def)
  from generate_audio_cases [of client e uid data s] show ?thesis
  proof (elim disjE exE conjE)
    assume "snd (generate_audio client e uid data s) = s"
    with eq show ?thesis by simp
  next
    fix u tts t v sp pi vo
    assume u: "uid = Some u"
      and r: "snd (generate_audio client e uid data s) = snd (generate_run tts e u t v sp pi vo s)"
    from generate_run_effect [of tts e u t v sp pi vo s] show ?thesis
    proof (elim disjE conjE)
      assume "hist (snd (generate_run tts e u t v sp pi vo s)) = hist s"
      with eq r show ?thesis by simp
    next
      assume "hist (snd (generate_run tts e u t v sp pi vo s)) =
                add_history (hist s) u t (token e @ asc ''.mp3'') v (voice_label v) sp pi vo (now e)"
      with eq r have "hist (snd (handle client e rq s)) =
                add_history (hist s) u t (token e @ asc ''.mp3'') v (voice_label v) sp pi vo (now e)"
        by simp
      moreover have "request_user rq = Some u" using GenerateAudio u by (simp add: request_user_def)
      ultimately show ?thesis by blast
    qed
  qed
next
  case (DownloadAudio uid fn)
  then show ?thesis by (simp add: handle_def)
next
  case (History uid m)
  then have eq: "snd (handle client e rq s) = snd (history e uid m s)"
    by (simp add: handle_def)
  from history_cases [of e uid m s] show ?thesis
  proof (elim disjE exE conjE)
    assume "snd (history e uid m s) = s"
    with eq show ?thesis by simp
  next
    fix u
    assume "uid = Some u" and "snd (history e uid m s) = s\<lparr>hist := delete_by_user (hist s) u\<rparr>"
    with eq History show ?thesis by (simp add: request_user_def)
  qed
next
  case (DeleteHistoryItem uid hid)
  then have eq: "snd (handle client e rq s) = snd (delete_history_item e uid hid s)"
    by (simp add: handle_def)
  from delete_history_item_hist [of e uid hid s] show ?thesis
  proof (elim disjE exE conjE)
    assume "hist (snd (delete_history_item e uid hid s)) = hist s"
    with eq show ?thesis by simp
  next
    fix u a
    assume u: "uid = Some u" and a: "find_by_id (hist s) hid u = Some a"
      and h: "hist (snd (delete_history_item e uid hid s)) = delete_row (hist s) a"
    from a have "a \<in> set (hist s)" and "ah_user_id a = u" by (simp_all add: find_by_id_Some)
    moreover have "request_user rq = Some u" using DeleteHistoryItem u by (simp add: request_user_def)
    moreover have "hist (snd (handle client e rq s)) = delete_row (hist s) a" using eq h by simp
    ultimately show ?thesis by blast
  qed
qed

lemma handle_hist_cases:
  obtains (same) "hist (snd (handle client e rq s)) = hist s"
  | (add) u t v sp pi vo where "request_user rq = Some u"
      "hist (snd (handle client e rq s)) =
         add_history (hist s) u t (token e @ asc ''.mp3'') v (voice_label v) sp pi vo (now e)"
  | (clear) u where "request_user rq = Some u"
      "hist (snd (handle client e rq s)) = delete_by_user (hist s) u"
  | (row) u a where "request_user rq = Some u" "a \<in> set (hist s)" "ah_user_id a = u"
      "hist (snd (handle client e rq s)) = delete_row (hist s) a"
  using handle_hist_disj [of client e rq s] by blast

lemma served_distinct_ids: "served client s \<Longrightarrow> distinct (map ah_id (hist s))"
proof (induction rule: served.induct)
  case start
  show ?case by (simp add: server_start_def)
next
  case (step s e rq)
  show ?case
  proof (cases rule: handle_hist_cases [of client e rq s])
    case same
    with step.IH show ?thesis by simp
  next
    case (add u t v sp pi vo)
    with step.IH show ?thesis by (simp add: add_history_distinct_ids)
  next
    case (clear u)
    with step.IH show ?thesis by (simp add: delete_by_user_def distinct_map_filter)
  next
    case (row u a)
    with step.IH show ?thesis by (simp add: delete_row_def distinct_map_filter)
  qed
qed

text \<open>
  C26: in every run, a request of one user (or of no user) leaves the history rows of
  every other user unchanged.
\<close>

theorem reachable_other_owners_untouched:
  assumes "served client s" and "request_user rq \<noteq> Some w"
  shows "filter (\<lambda>h. ah_user_id h = w) (hist (snd (handle client e rq s))) =
         filter (\<lambda>h. ah_user_id h = w) (hist s)"
proof (cases rule: handle_hist_cases [of client e rq s])
  case same
  then show ?thesis by simp
next
  case (add u t v sp pi vo)
  with assms(2) show ?thesis by (simp add: add_history_def)
next
  case (clear u)
  with assms(2) have "\<forall>h\<in>set (hist s). ah_user_id h = w \<longrightarrow> ah_user_id h \<noteq> u" by auto
  with clear show ?thesis
    unfolding delete_by_user_def filter_filter by (auto intro: filter_cong)
next
  case (row u a)
  have d: "distinct (map ah_id (hist s))" using assms(1) by (rule served_distinct_ids)
  have "\<forall>h\<in>set (hist s). ah_user_id h = w \<longrightarrow> ah_id h \<noteq> ah_id a"
    using d row assms(2) by (auto simp: distinct_map inj_on_def)
  with row show ?thesis
    unfolding delete_row_def filter_filter by (auto intro: filter_cong)
qed

theorem reachable_ok_consistent_witness:
  "consistent (snd (handle (Some sample_client) (sample_env (asc ''ab'') None None)
     (GenerateAudio (Some 1) (Some (text_json (asc ''hi'')))) server_start))"
proof -
  have "well_behaved (sample_env (asc ''ab'') None None)
          (GenerateAudio (Some 1) (Some (text_json (asc ''hi'')))) server_start"
    by (simp add: well_behaved_def server_start_def)
  with served_ok.start have "served_ok (Some sample_client) (snd (handle (Some sample_client)
      (sample_env (asc ''ab'') None None) (GenerateAudio (Some 1) (Some (text_json (asc ''hi'')))) server_start))"
    by (rule served_ok.step)
  then show ?thesis by (rule reachable_ok_consistent)
qed

theorem reachable_other_owners_untouched_witness:
  "filter (\<lambda>h. ah_user_id h = 2) (hist (snd (handle (Some sample_client) (sample_env (asc ''ab'') None None)
     (GenerateAudio (Some 1) (Some (text_json (asc ''hi'')))) server_start))) = []"
  using reachable_other_owners_untouched [OF served.start, of "GenerateAudio (Some 1) (Some (text_json (asc ''hi'')))" 2]
  by (simp add: request_user_def server_start_def)

end
