(* ===== verification/Server.thy ===== *)
theory Server
  imports Auth Runs
begin

text \<open>
  The whole of app.py as one server: its state \<open>server\<close> is the audio state of
  App.thy (files, provider calls, history rows) with the users table of Auth.thy,
  and \<open>serve\<close> dispatches a request to the route Flask would call, with the
  session of the request.  The audio routes read \<open>session['user_id']\<close> and leave
  the session as it is.  \<open>srv_reach\<close> is every state a sequence of requests
  reaches from the empty server, each request in any environment and with any
  session; \<open>browse\<close> runs the requests of one browser, whose cookie carries the
  session from one response to the next request.
\<close>

section \<open>State and routes\<close>

record server =
  srv_app :: app_state
  srv_users :: user_table

definition server_init :: server where
  "server_init = \<lparr>srv_app = server_start, srv_users = []\<rparr>"

text \<open>The routes of app.py with their request data (lines 86--376).\<close>

datatype route =
    RIndex
  | RLogin http_method "jbody option"
  | RRegister http_method "jbody option"
  | RHome
  | RLogout
  | RUserInfo
  | RGenerate "gen_json option"
  | RDownload ustr
  | RHistory http_method
  | RDeleteItem nat

text \<open>The audio request a route makes, with the user id of the session.\<close>

definition audio_request :: "session \<Rightarrow> route \<Rightarrow> request option" where
  "audio_request sess rt =
     (case rt of
        RGenerate data \<Rightarrow> Some (GenerateAudio (sess_user_id sess) data)
      | RDownload filename \<Rightarrow> Some (DownloadAudio (sess_user_id sess) filename)
      | RHistory method \<Rightarrow> Some (History (sess_user_id sess) method)
      | RDeleteItem history_id \<Rightarrow> Some (DeleteHistoryItem (sess_user_id sess) history_id)
      | _ \<Rightarrow> None)"

definition serve ::
  "baidu_tts option \<Rightarrow> app_env \<Rightarrow> session \<Rightarrow> route \<Rightarrow> server \<Rightarrow> response \<times> session \<times> server" where
  "serve client e sess rt st =
     (case rt of
        RIndex \<Rightarrow> (index sess, sess, st)
      | RLogin method data \<Rightarrow>
          (let (r, sess') = login method data sess (srv_users st) in (r, sess', st))
      | RRegister method data \<Rightarrow>
          (let (r, sess', users) = register e method data sess (srv_users st)
           in (r, sess', st\<lparr>srv_users := users\<rparr>))
      | RHome \<Rightarrow> (home sess, sess, st)
      | RLogout \<Rightarrow> (let (r, sess') = logout sess in (r, sess', st))
      | RUserInfo \<Rightarrow> (user_info sess (srv_users st), sess, st)
      | _ \<Rightarrow>
          (case audio_request sess rt of
             Some rq \<Rightarrow> (let (r, s) = handle client e rq (srv_app st) in (r, sess, st\<lparr>srv_app := s\<rparr>))
           | None \<Rightarrow> (InternalError, sess, st)))"

inductive srv_reach :: "baidu_tts option \<Rightarrow> server \<Rightarrow> bool" for client where
  start: "srv_reach client server_init"
| step: "srv_reach client st \<Longrightarrow> srv_reach client (snd (snd (serve client e sess rt st)))"

text \<open>One browser: each response's session is the next request's cookie.\<close>

fun browse ::
  "baidu_tts option \<Rightarrow> (app_env \<times> route) list \<Rightarrow> session \<Rightarrow> server \<Rightarrow>
   response list \<times> session \<times> server" where
  "browse client [] sess st = ([], sess, st)"
| "browse client ((e, rt) # rts) sess st =
     (let (r, sess', st') = serve client e sess rt st;
          (rs, sess'', st'') = browse client rts sess' st'
      in (r # rs, sess'', st''))"

text \<open>
  A session names an existing user: its id is that of a row of the users table and
  its user name is that row's.
\<close>

definition sess_ok :: "session \<Rightarrow> server \<Rightarrow> bool" where
  "sess_ok sess st \<longleftrightarrow>
     (case sess_user_id sess of
        None \<Rightarrow> True
      | Some i \<Rightarrow> (\<exists>u\<in>set (srv_users st). usr_id u = i \<and> sess_username sess = Some (usr_username u)))"

section \<open>A sample browser session\<close>

text \<open>
  Register, generate a clip, list the history, download the clip, log out and try
  the download again.
\<close>

definition scenario_routes :: "(app_env \<times> route) list" where
  "scenario_routes =
     [(sample_auth_env, RRegister POST (Some (reg_body ''bob'' ''b@x'' ''secret2''))),
      (sample_auth_env, RGenerate (Some (text_json (asc ''hi'')))),
      (sample_auth_env, RHistory GET),
      (sample_auth_env, RDownload (asc ''ab.mp3'')),
      (sample_auth_env, RLogout),
      (sample_auth_env, RDownload (asc ''ab.mp3''))]"

section \<open>Lemmas on the dispatcher\<close>

lemma serve_response:
  "fst (serve client e sess rt st) =
     (case rt of
        RIndex \<Rightarrow> index sess
      | RLogin m d \<Rightarrow> fst (login m d sess (srv_users st))
      | RRegister m d \<Rightarrow> fst (register e m d sess (srv_users st))
      | RHome \<Rightarrow> home sess
      | RLogout \<Rightarrow> fst (logout sess)
      | RUserInfo \<Rightarrow> user_info sess (srv_users st)
      | _ \<Rightarrow> (case audio_request sess rt of
                Some rq \<Rightarrow> fst (handle client e rq (srv_app st))
              | None \<Rightarrow> InternalError))"
  by (cases rt) (simp_all add: serve_def split: prod.split option.split)

lemma serve_users:
  "srv_users (snd (snd (serve client e sess rt st))) =
     (case rt of RRegister method data \<Rightarrow> snd (snd (register e method data sess (srv_users st)))
               | _ \<Rightarrow> srv_users st)"
  by (cases rt) (simp_all add: serve_def audio_request_def split: prod.split option.split)

lemma reach_users_ok: "srv_reach client st \<Longrightarrow> users_ok (srv_users st)"
proof (induction rule: srv_reach.induct)
  case start
  show ?case by (simp add: server_init_def users_ok_def)
next
  case (step st e sess rt)
  then show ?case by (cases rt) (simp_all add: serve_users register_keeps_users_ok)
qed

lemma browse_reach: "srv_reach client st \<Longrightarrow> srv_reach client (snd (snd (browse client rts sess st)))"
proof (induction rts arbitrary: sess st)
  case Nil
  then show ?case by simp
next
  case (Cons p rts)
  obtain e rt where p: "p = (e, rt)" by fastforce
  obtain r sess' st' where s: "serve client e sess rt st = (r, sess', st')" by (metis prod.exhaust)
  have "srv_reach client st'" using srv_reach.step [OF Cons.prems, of e sess rt] s by simp
  with Cons.IH [of st' sess'] show ?case by (auto simp: p s split: prod.split)
qed

lemma serve_logged_out:
  assumes "sess_user_id sess = None" and "audio_request sess rt = Some rq"
  shows "handle client e rq s = (Json 401 False (Some lit_not_logged_in) NoPayload, s)"
  using assms
  by (cases rt) (auto simp: audio_request_def handle_def generate_audio_def download_audio_def
                           history_def delete_history_item_def)

text \<open>
  C10: without a user id in the session every audio route and user_info answer 401
  and change nothing, and home redirects to the login page.
\<close>

theorem serve_requires_login:
  assumes "sess_user_id sess = None"
    and "audio_request sess rt \<noteq> None \<or> rt = RUserInfo"
  shows "serve client e sess rt st = (Json 401 False (Some lit_not_logged_in) NoPayload, sess, st) \<and>
         fst (serve client e sess RHome st) = Redirect (asc ''/login'')"
proof -
  have "serve client e sess rt st = (Json 401 False (Some lit_not_logged_in) NoPayload, sess, st)"
  proof (cases "audio_request sess rt")
    case None
    with assms show ?thesis by (simp add: serve_def user_info_def)
  next
    case (Some rq)
    have "rt \<noteq> RIndex \<and> rt \<noteq> RHome \<and> rt \<noteq> RLogout \<and> rt \<noteq> RUserInfo \<and>
          (\<forall>m d. rt \<noteq> RLogin m d \<and> rt \<noteq> RRegister m d)"
      using Some by (auto simp: audio_request_def)
    with Some serve_logged_out [OF assms(1) Some, of client e "srv_app st"] show ?thesis
      by (cases rt) (simp_all add: serve_def)
  qed
  moreover have "fst (serve client e sess RHome st) = Redirect (asc ''/login'')"
    using assms(1) by (simp add: serve_def home_def)
  ultimately show ?thesis by blast
qed

lemma login_sess_ok:
  "sess_ok sess st \<Longrightarrow> sess_ok (snd (login m data sess (srv_users st))) st"
  by (auto simp: login_def Let_def sess_ok_def find_login_user_def
           split: http_method.split option.split jbody.split if_split dest: find_SomeD)

lemma register_sess_ok:
  "sess_ok sess st \<Longrightarrow>
   sess_ok (fst (snd (register e m data sess (srv_users st))))
           (st\<lparr>srv_users := snd (snd (register e m data sess (srv_users st)))\<rparr>)"
proof (cases rule: register_cases [of e m data sess "srv_users st"])
  case unchanged
  moreover assume "sess_ok sess st"
  moreover have "fst (snd (register e m data sess (srv_users st))) = sess"
    using unchanged by (auto simp: register_def Let_def split: http_method.splits option.splits
                                  jbody.splits if_splits)
  ultimately show ?thesis by (simp add: sess_ok_def)
next
  case (created d)
  then show ?thesis by (simp add: sess_ok_def)
qed

lemma serve_keeps_sess_ok:
  "sess_ok sess st \<Longrightarrow> sess_ok (fst (snd (serve client e sess rt st))) (snd (snd (serve client e sess rt st)))"
proof (cases rt)
  case (RLogin m d)
  moreover assume "sess_ok sess st"
  ultimately show ?thesis using login_sess_ok [of sess st m d]
    by (auto simp: serve_def split: prod.split)
next
  case (RRegister m d)
  moreover assume "sess_ok sess st"
  ultimately show ?thesis using register_sess_ok [of sess st e m d]
    by (auto simp: serve_def split: prod.split)
next
  case RLogout
  then show ?thesis by (simp add: serve_def logout_def sess_ok_def empty_session_def)
qed (auto simp: serve_def sess_ok_def audio_request_def split: prod.split option.split)

text \<open>
  C15: sessions stay bound to accounts: if the session of a request names an existing
  user (the id of a row and that row's name), so does the session the route returns,
  in the state after the request.
\<close>

theorem serve_sess_ok:
  "sess_ok sess st \<Longrightarrow> sess_ok (fst (snd (serve client e sess rt st))) (snd (snd (serve client e sess rt st)))"
  by (rule serve_keeps_sess_ok)

lemma browse_sess_ok:
  "sess_ok sess st \<Longrightarrow>
   sess_ok (fst (snd (browse client rts sess st))) (snd (snd (browse client rts sess st)))"
proof (induction rts arbitrary: sess st)
  case Nil
  then show ?case by simp
next
  case (Cons p rts)
  obtain e rt where p: "p = (e, rt)" by fastforce
  obtain r sess' st' where s: "serve client e sess rt st = (r, sess', st')" by (metis prod.exhaust)
  have "sess_ok sess' st'" using serve_keeps_sess_ok [OF Cons.prems, of client e rt] s by simp
  with Cons.IH [of sess' st'] show ?case by (auto simp: p s split: prod.split)
qed

lemma users_ok_find_id:
  "users_ok users \<Longrightarrow> u \<in> set users \<Longrightarrow> find (\<lambda>v. usr_id v = usr_id u) users = Some u"
  by (induction users) (auto simp: users_ok_def)

text \<open>
  C16: a browser that starts without a session and is logged in after any sequence of
  requests gets its own account from user_info: never 404, and the name in the
  session is the account's name.
\<close>

theorem browse_user_info:
  assumes "browse client rts empty_session server_init = (rs, sess, st)"
    and "sess_user_id sess = Some i"
  shows "\<exists>u\<in>set (srv_users st). sess_username sess = Some (usr_username u) \<and>
           user_info sess (srv_users st) =
             Json 200 True None (UserInfo i (usr_username u) (usr_email u) (usr_created_at u))"
proof -
  have "sess_ok empty_session server_init" by (simp add: sess_ok_def empty_session_def)
  from browse_sess_ok [OF this, of client rts] assms(1)
  have ok: "sess_ok sess st" by simp
  have "srv_reach client st"
    using browse_reach [OF srv_reach.start, of client rts empty_session] assms(1) by simp
  then have uok: "users_ok (srv_users st)" by (rule reach_users_ok)
  from ok assms(2) obtain u where u: "u \<in> set (srv_users st)" "usr_id u = i"
      "sess_username sess = Some (usr_username u)"
    by (auto simp: sess_ok_def)
  with users_ok_find_id [OF uok u(1)] assms(2) show ?thesis
    by (intro bexI [OF _ u(1)]) (simp add: user_info_def)
qed

text \<open>
  C17: every JSON answer of every route carries one of the status codes 200, 400, 401,
  403, 404 and 500, and reports success exactly with 200.
\<close>

theorem serve_json_ok: "json_ok (fst (serve client e sess rt st))"
  by (cases rt)
     (simp_all add: serve_response handle_json_ok login_json_ok register_json_ok index_def home_def
                    logout_def user_info_def split: option.split)

theorem serve_requires_login_witness:
  "serve (Some sample_client) sample_auth_env empty_session (RGenerate (Some (text_json (asc ''hi''))))
     server_init = (Json 401 False (Some lit_not_logged_in) NoPayload, empty_session, server_init)"
  using serve_requires_login [of empty_session "RGenerate (Some (text_json (asc ''hi'')))"
      "Some sample_client" sample_auth_env server_init]
  by (simp add: empty_session_def audio_request_def)

theorem serve_sess_ok_witness:
  "sess_ok (fst (snd (serve (Some sample_client) sample_auth_env empty_session
              (RLogin POST (Some (login_body ''bob'' ''secret2''))) server_init)))
           (snd (snd (serve (Some sample_client) sample_auth_env empty_session
              (RLogin POST (Some (login_body ''bob'' ''secret2''))) server_init)))"
  by (rule serve_sess_ok) (simp add: sess_ok_def empty_session_def)

theorem browse_user_info_witness:
  "\<exists>u\<in>set (srv_users (snd (snd (browse (Some sample_client) (take 1 scenario_routes) empty_session
          server_init)))).
     user_info (fst (snd (browse (Some sample_client) (take 1 scenario_routes) empty_session server_init)))
       (srv_users (snd (snd (browse (Some sample_client) (take 1 scenario_routes) empty_session server_init)))) =
     Json 200 True None (UserInfo 1 (usr_username u) (usr_email u) (usr_created_at u))"
proof -
  have "sess_user_id (fst (snd (browse (Some sample_client) (take 1 scenario_routes) empty_session
          server_init))) = Some 1"
    by (simp add: scenario_routes_def serve_def register_def Let_def auth_sample_defs asc_def
                  py_strip_def py_isspace_def next_user_id_def server_init_def empty_session_def)
  moreover have b: "browse (Some sample_client) (take 1 scenario_routes) empty_session server_init =
      (fst (browse (Some sample_client) (take 1 scenario_routes) empty_session server_init),
       fst (snd (browse (Some sample_client) (take 1 scenario_routes) empty_session server_init)),
       snd (snd (browse (Some sample_client) (take 1 scenario_routes) empty_session server_init)))"
    by simp
  ultimately show ?thesis using browse_user_info [OF b] by blast
qed

end
