(* ===== verification/Demos.thy ===== *)
theory Demos
  imports App
begin

text \<open>
  The demonstration programs: \<open>main()\<close> of
  src/Software-engineering-final-project-XianWai-AI-podcast/main.py, the
  \<open>__main__\<close> block of src/TTS/AI_Text_to_Audio.py (lines 152--185), and the one
  route of src/app.py.  Both scripts build a client with empty credentials, run
  \<open>text_to_speech\<close> and print; a \<open>print\<close> appends its argument to \<open>printed\<close>, an
  exception ends the script and is the left result.
\<close>

section \<open>String literals of the scripts\<close>

text \<open>Line 163 (and line 16 of main.py): success, followed by the file name.\<close>

definition lit_saved_file :: ustr where
  [literal_defs]: "lit_saved_file = [0x8BED, 0x97F3, 0x5408, 0x6210, 0x6210, 0x529F, 0xFF01, 0x6587, 0x4EF6, 0x5DF2, 0x4FDD, 0x5B58, 0x4E3A] @ asc '': ''"

text \<open>main.py line 12: the sample text.\<close>

definition main_text :: ustr where
  [literal_defs]: "main_text = [0x6B22, 0x8FCE, 0x4F7F, 0x7528, 0x767E, 0x5EA6, 0x8BED, 0x97F3, 0x5408, 0x6210, 0x670D, 0x52A1, 0xFF0C, 0x8FD9, 0x662F, 0x4E00, 0x4E2A, 0x6D4B, 0x8BD5, 0x793A, 0x4F8B, 0x3002]"

text \<open>Line 159: the first sample text.\<close>

definition demo_text :: ustr where
  [literal_defs]: "demo_text = [0x751F, 0x6D3B, 0x5C31, 0x50CF, 0x6D77, 0x6D0B, 0xFF0C, 0x53EA, 0x6709, 0x610F, 0x5FD7, 0x575A, 0x5F3A, 0x7684, 0x4EBA, 0x624D, 0x80FD, 0x5230, 0x8FBE, 0x5F7C, 0x5CB8]"

text \<open>Line 176: the second sample text.\<close>

definition demo_custom_text :: ustr where
  [literal_defs]: "demo_custom_text = [0x73B0, 0x5728, 0x662F, 0x81EA, 0x5B9A, 0x4E49, 0x53C2, 0x6570, 0x6D4B, 0x8BD5, 0xFF0C, 0x8BED, 0x901F, 0x8F83, 0x6162, 0xFF0C, 0x97F3, 0x8C03, 0x8F83, 0x9AD8, 0x3002]"

text \<open>Line 183: header of the voice list (it starts with a newline).\<close>

definition lit_voices_header :: ustr where
  [literal_defs]: "lit_voices_header = [10, 0x652F, 0x6301, 0x7684, 0x53D1, 0x97F3, 0x4EBA] @ asc '':''"

section \<open>The scripts\<close>

text \<open>
  Lines 162--165 (main.py lines 15--18): the line printed for the result of
  \<open>text_to_speech\<close>.
\<close>

definition report :: "bool \<times> ustr \<Rightarrow> ustr" where
  "report res = (if fst res then lit_saved_file @ snd res else lit_synth_failed @ snd res)"

text \<open>main.py lines 5--18; the client's default \<open>lang\<close> and \<open>cuid\<close> apply.\<close>

definition main_py :: "'e env_scheme \<Rightarrow> 'w world_scheme \<Rightarrow> (py_exc + unit) \<times> 'w world_scheme" where
  "main_py e w =
     (let tts = baidu_tts_init [] [] []
      in case text_to_speech e tts main_text (asc ''test.mp3'') ''zh'' None (asc ''python_tts_client'') w of
           (Inl x, w1) \<Rightarrow> (Inl x, w1)
         | (Inr res, w1) \<Rightarrow> (Inr (), w1\<lparr>printed := printed w1 @ [report res]\<rparr>))"

text \<open>Lines 168--173: the custom options.\<close>

definition demo_custom_options :: pydict where
  "demo_custom_options = [(''spd'', OInt 3), (''pit'', OInt 7), (''vol'', OInt 8), (''per'', OInt 1)]"

text \<open>Line 185: one line of the voice list.\<close>

definition voice_line :: "int \<times> ustr \<Rightarrow> ustr" where
  "voice_line v = asc ''  '' @ show_int (fst v) @ asc '': '' @ snd v"

text \<open>Lines 152--185.\<close>

definition tts_demo :: "'e env_scheme \<Rightarrow> 'w world_scheme \<Rightarrow> (py_exc + unit) \<times> 'w world_scheme" where
  "tts_demo e w =
     (let tts = baidu_tts_init [] [] []
      in case text_to_speech e tts demo_text (asc ''basic_output.mp3'') ''zh'' None
                (asc ''python_tts_client'') w of
           (Inl x, w1) \<Rightarrow> (Inl x, w1)
         | (Inr res, w1) \<Rightarrow>
             (case text_to_speech e tts demo_custom_text (asc ''custom_output.mp3'') ''zh''
                     (Some demo_custom_options) (asc ''python_tts_client'')
                     (w1\<lparr>printed := printed w1 @ [report res]\<rparr>) of
                (Inl x, w2) \<Rightarrow> (Inl x, w2)
              | (Inr _, w2) \<Rightarrow>
                  (Inr (), w2\<lparr>printed := printed w2 @ [lit_voices_header] @
                                         map voice_line get_supported_voices\<rparr>)))"

text \<open>src/app.py lines 8--10: the only route renders \<open>index.html\<close>.\<close>

definition minimal_index :: response where
  "minimal_index = Template (asc ''index.html'') None"

section \<open>Lemmas on the scripts\<close>

lemma gbk_len_main_text: "gbk_len main_text = Some 44"
  by (simp add: main_text_def gbk_char_len_def gbk_double_ranges_def)

lemma gbk_len_demo_texts: "gbk_len demo_text = Some 42" "gbk_len demo_custom_text = Some 42"
  by (simp_all add: demo_text_def demo_custom_text_def gbk_char_len_def gbk_double_ranges_def)

text \<open>
  C29: main.py never raises: it sends exactly one request with the sample text, the
  defaults and the client's \<open>cuid\<close>, and prints exactly one line, the report of the
  result; a success report names \<open>test.mp3\<close>, which then holds the provider's audio.
\<close>

theorem main_py_reports:
  "\<exists>res w'. main_py e w = (Inr (), w') \<and>
     sent w' = sent w @ [tts_req (baidu_tts_init [] [] []) main_text ''zh'' None (asc ''python_tts_client'')] \<and>
     printed w' = printed w @ [report res] \<and>
     (fst res \<longrightarrow> snd res = asc ''test.mp3'' \<and>
        (\<exists>b. synth e (length (sent w))
               (tts_req (baidu_tts_init [] [] []) main_text ''zh'' None (asc ''python_tts_client'')) = Audio b \<and>
             files w' (asc ''test.mp3'') = Some b))"
proof -
  let ?req = "tts_req (baidu_tts_init [] [] []) main_text ''zh'' None (asc ''python_tts_client'')"
  let ?R = "text_to_speech e (baidu_tts_init [] [] []) main_text (asc ''test.mp3'') ''zh'' None
              (asc ''python_tts_client'') w"
  obtain res where res: "fst ?R = Inr res"
    using text_to_speech_returns [OF gbk_len_main_text] by blast
  obtain w1 where R: "?R = (Inr res, w1)"
    using res by (cases ?R) simp
  have "sent (snd ?R) = sent w @ [?req]"
    by (rule text_to_speech_call [OF gbk_len_main_text]) simp
  then have sent: "sent w1 = sent w @ [?req]" using R by simp
  have pr: "printed w1 = printed w"
    using text_to_speech_printed [of e "baidu_tts_init [] [] []" main_text "asc ''test.mp3''" "''zh''"
        None "asc ''python_tts_client''" w] R by simp
  have ok: "fst res \<longrightarrow> snd res = asc ''test.mp3'' \<and>
        (\<exists>b. synth e (length (sent w)) ?req = Audio b \<and> files w1 (asc ''test.mp3'') = Some b)"
  proof
    assume "fst res"
    then have "fst ?R = Inr (True, snd res)" using res by (cases res) simp
    from text_to_speech_success_facts [OF this] R
    show "snd res = asc ''test.mp3'' \<and>
          (\<exists>b. synth e (length (sent w)) ?req = Audio b \<and> files w1 (asc ''test.mp3'') = Some b)"
      by auto
  qed
  have "main_py e w = (Inr (), w1\<lparr>printed := printed w1 @ [report res]\<rparr>)"
    using R by (simp add: main_py_def)
  with sent ok pr show ?thesis
    by (intro exI [of _ res] exI [of _ "w1\<lparr>printed := printed w1 @ [report res]\<rparr>"]) simp
qed

text \<open>
  C30: the demo of AI_Text_to_Audio.py never raises: it sends the two sample requests,
  the second with the custom options, and prints the report of the first, the header
  and one line per supported voice, in the order of the dictionary.
\<close>

theorem tts_demo_prints:
  "\<exists>res w'. tts_demo e w = (Inr (), w') \<and>
     sent w' = sent w @ [tts_req (baidu_tts_init [] [] []) demo_text ''zh'' None (asc ''python_tts_client''),
                         tts_req (baidu_tts_init [] [] []) demo_custom_text ''zh'' (Some demo_custom_options)
                           (asc ''python_tts_client'')] \<and>
     printed w' = printed w @ [report res, lit_voices_header] @ map voice_line get_supported_voices"
proof -
  let ?t = "baidu_tts_init [] [] []"
  let ?R1 = "text_to_speech e ?t demo_text (asc ''basic_output.mp3'') ''zh'' None (asc ''python_tts_client'') w"
  obtain res where res: "fst ?R1 = Inr res"
    using text_to_speech_returns [OF gbk_len_demo_texts(1)] by blast
  obtain w1 where R1: "?R1 = (Inr res, w1)" using res by (cases ?R1) simp
  let ?w1 = "w1\<lparr>printed := printed w1 @ [report res]\<rparr>"
  let ?R2 = "text_to_speech e ?t demo_custom_text (asc ''custom_output.mp3'') ''zh''
               (Some demo_custom_options) (asc ''python_tts_client'') ?w1"
  obtain res2 where res2: "fst ?R2 = Inr res2"
    using text_to_speech_returns [OF gbk_len_demo_texts(2)] by blast
  obtain w2 where R2: "?R2 = (Inr res2, w2)" using res2 by (cases ?R2) simp
  have "sent (snd ?R1) = sent w @ [tts_req ?t demo_text ''zh'' None (asc ''python_tts_client'')]"
    by (rule text_to_speech_call [OF gbk_len_demo_texts(1)]) simp
  moreover have "sent (snd ?R2) =
      sent ?w1 @ [tts_req ?t demo_custom_text ''zh'' (Some demo_custom_options) (asc ''python_tts_client'')]"
    by (rule text_to_speech_call [OF gbk_len_demo_texts(2)]) simp
  moreover have "printed w1 = printed w"
    using text_to_speech_printed [of e ?t demo_text "asc ''basic_output.mp3''" "''zh''" None
        "asc ''python_tts_client''" w] R1 by simp
  moreover have "printed w2 = printed ?w1"
    using text_to_speech_printed [of e ?t demo_custom_text "asc ''custom_output.mp3''" "''zh''"
        "Some demo_custom_options" "asc ''python_tts_client''" ?w1] R2 by simp
  moreover have "tts_demo e w =
      (Inr (), w2\<lparr>printed := printed w2 @ [lit_voices_header] @ map voice_line get_supported_voices\<rparr>)"
    using R1 R2 by (simp add: tts_demo_def)
  ultimately show ?thesis using R1 R2
    by (intro exI [of _ res]
          exI [of _ "w2\<lparr>printed := printed w2 @ [lit_voices_header] @ map voice_line get_supported_voices\<rparr>"])
       simp
qed

theorem main_py_reports_witness:
  "\<exists>w'. main_py (busy_env 0) empty_world = (Inr (), w') \<and> length (sent w') = 1 \<and>
        length (printed w') = 1"
  using main_py_reports [of "busy_env 0" empty_world] by (auto simp: empty_world_def)

end
