(* ===== verification/Spec2Isabelle.thy ===== *)
theory Spec2Isabelle
  imports Server Demos
begin

text \<open>
  \<^bold>\<open>A verification development of the XianWai AI podcast text-to-speech service.\<close>

  \<^bold>\<open>The program.\<close>  A Flask application
  (src/Software-engineering-final-project-XianWai-AI-podcast/app.py) lets a logged-in
  user submit a text, sends it to the Baidu speech provider through the client class
  \<open>BaiduTTS\<close> of src/TTS/AI_Text_to_Audio.py, writes the returned MP3 under
  \<open>uploads/\<close> and records the generation in the SQLite table \<open>AudioHistory\<close>.  Users
  list, clear and delete their history and download their files.  src/app.py and
  main.py are a one-route demo and a demo script.

  \<^bold>\<open>Theories.\<close>
  \<^item> \<open>Prelude\<close>: Python strings as code-point lists (\<open>ustr\<close>), bytes as
    \<open>8 word list\<close>, the built-ins the code uses (\<open>str.strip\<close> as \<open>py_strip\<close> with
    CPython's whitespace set, \<open>str(int)\<close> as \<open>show_int\<close>, \<open>dict.get\<close> as \<open>py_get\<close>),
    and shared lemmas on lists, \<open>find\<close>, association lists and \<open>fold max\<close>.
  \<^item> \<open>Gbk\<close>: \<open>len(text.encode('gbk'))\<close> as \<open>gbk_len\<close>.  The codec is the standard
    library's, modelled from CPython's table as 138 ranges of double-byte code points;
    \<open>None\<close> is the \<open>UnicodeEncodeError\<close> of a character outside GBK.
  \<^item> \<open>World\<close>: the outside world the code touches, a record \<open>world\<close> of the files
    on disk, the provider requests sent, the \<open>time.sleep\<close> calls made and the lines
    written by \<open>print\<close>, and an
    environment \<open>env\<close> of the answers the world gives (the provider's reply to the
    \<open>i\<close>-th request, the outcome of each file write).  Every theorem quantifies over
    the environment, so it holds for every provider and disk behaviour.
  \<^item> \<open>Tts\<close>: class \<open>BaiduTTS\<close>.  \<open>baidu_tts_init\<close> is \<open>__init__\<close>,
    \<open>text_to_speech\<close> the method of that name (the GBK length check outside the
    \<open>try\<close>, the option merge, the one provider call, the reply classification, the
    file write, every \<open>except\<close>), \<open>set_default_option\<close>,
    \<open>get_supported_voices\<close>, and \<open>text_to_speech_with_retry\<close> with its \<open>for\<close> loop
    as the recursion \<open>retry_loop\<close> on the number of attempts left (its notice is
    \<open>retry_notice\<close>).  Exceptions are the left side of \<open>py_exc + _\<close>.
  \<^item> \<open>HistoryDb\<close>: the \<open>AudioHistory\<close> model as the record \<open>audio_history\<close>, the
    table as the list of rows in rowid order, and the queries of the handlers
    (\<open>add_history\<close>, \<open>find_by_filename\<close>, \<open>find_by_id\<close>, \<open>history_query\<close>,
    \<open>delete_by_user\<close>, \<open>delete_row\<close>, \<open>to_dict\<close>).  SQLite's rowid choice (largest
    plus one) is \<open>next_rowid\<close>, modelled from SQLite's documented behaviour.
  \<^item> \<open>App\<close>: the four audio endpoints of app.py on the state \<open>app_state\<close> (the world
    plus the table): \<open>generate_audio\<close> (with \<open>generate_run\<close> for the body of its
    \<open>try\<close>), \<open>download_audio\<close>, \<open>history\<close> (GET, POST, DELETE) and
    \<open>delete_history_item\<close>, and \<open>handle\<close> dispatching a \<open>request\<close>.  The session's
    user id is an argument (\<open>None\<close> when not logged in); the environment \<open>app_env\<close>
    adds the \<open>uuid4().hex\<close> token, the clock, whether \<open>db.session.commit()\<close> and
    \<open>os.remove\<close> fail, and werkzeug's salt.  Each handler returns its HTTP response (\<open>Json\<close> with status,
    \<open>success\<close>, message and payload; \<open>SendFile\<close>; \<open>InternalError\<close> for an
    uncaught exception, which Flask turns into a 500) with the new state.
  \<^item> \<open>Auth\<close>: the \<open>User\<close> table (record \<open>user\<close>, rows in rowid order,
    \<open>next_user_id\<close>), werkzeug's salted hash by its contract (spec-modelled: a hash
    checks exactly the password it was made from), Flask's session cookie as the
    record \<open>session\<close>, a request body as \<open>jbody\<close>, and the routes \<open>index\<close>,
    \<open>login\<close>, \<open>register\<close>, \<open>home\<close>, \<open>logout\<close> and \<open>user_info\<close> (lines
    86--224), each taking the session of the request and returning the one it sets.
    The login query follows SQLite's multi-index OR plan over the two \<open>UNIQUE\<close>
    columns: the user with that name first, otherwise the user with that e-mail.
  \<^item> \<open>Runs\<close>: runs of the audio handlers as the inductive \<open>served\<close> (every state
    a sequence of handled requests reaches from the empty start) and \<open>served_ok\<close>
    (runs whose tokens are fresh and whose deletions commit), and the file/record
    invariant \<open>consistent\<close> of spec section 3.
  \<^item> \<open>Server\<close>: all of app.py.  The state \<open>server\<close> pairs the audio state with
    the users table; \<open>serve\<close> dispatches a \<open>route\<close> as Flask does, the audio
    routes reading the session's user id (\<open>audio_request\<close>).  \<open>srv_reach\<close> is
    every state reachable with any sessions (cookies can be presented by any
    client); \<open>browse\<close> runs one browser, whose cookie carries the session from one
    response to the next request.
  \<^item> \<open>Demos\<close>: \<open>main()\<close> of main.py and the \<open>__main__\<close> block of
    AI_Text_to_Audio.py, with their provider calls and printed lines, and the one
    route of src/app.py.
  \<^item> This theory imports them all and documents the development.

  \<^bold>\<open>What is proved.\<close>  Tts: the GBK limit is checked before any request (no
  request is sent for an oversize text), the request the provider receives, the
  file written on success, the retry loop's attempts, notices and back-off sleeps
  (\<open>1, 2, 4, \<dots>\<close>, including one after the last attempt), the stop on a
  terminal error, and \<open>UnboundLocalError\<close> when \<open>max_retries \<le> 0\<close>.  HistoryDb:
  the listing is the first 50 of a newest-first order of exactly the owner's rows,
  and ids are reused after the newest row is deleted.  App: validation answers of
  \<open>generate_audio\<close> with no side effect, the exact effect of a successful
  generation, owner isolation of download and delete, that clearing the history
  keeps the files and that a failing commit keeps a file without record
  (generation) or a record without file (deletion).  Auth: registration keeps the
  users table well formed, login is sound, the round trip from registration to
  login, and that a user whose e-mail is another user's name cannot log in with the
  e-mail.  Runs: consistency of every well-behaved run by rule induction and the
  isolation of users in every run.  Server: the audio routes and user_info require
  a login, sessions stay bound to existing accounts, a browser's user_info always
  returns its own account, and every JSON answer of every route has a status code
  of the handlers with \<open>success\<close> exactly for 200.  Demos: both scripts send
  their requests, never raise, and print the lines the code prints.

  \<^bold>\<open>Modelling choices.\<close>  The provider, the disk, the token, the clock, the
  salt and the database's commit are oracles of the environment rather than fixed
  behaviour.  The retry loop needs no fuel: it is a recursion on the attempts left,
  so every definition is total.  \<open>.first()\<close> is the first matching row in rowid
  order, and ties in the listing keep rowid order (a stable sort); both are orders
  SQL allows.  A request body is a JSON object with string values (integers for the
  voice parameters) or another JSON value; a key present with a \<open>null\<close> value and
  values of other JSON types inside an object are not modelled, and a body Flask
  refuses (its 400 or 415 from \<open>get_json\<close>) is folded into \<open>InternalError\<close>.  The text
  of a caught exception is its class name.

  \<^bold>\<open>Not modelled.\<close>  Template rendering (a template is named, not rendered),
  \<open>strftime\<close> formatting of timestamps, the signing of the session cookie, the
  HTTP methods a route does not accept on the audio routes, Flask's automatic
  \<open>HEAD\<close> on the history route, and \<open>app.run\<close>: they
  are Flask and Jinja behaviour, not code of the repository.
\<close>

end
